theory Spec2Isabelle
  imports Complex_Main
begin

section \<open>Permit2 typed-data authorisation (permit2.ts: src/src/permit2.ts, lines 1-247)\<close>

text \<open>
  The EIP-712 domain and the permit, as the interfaces \<^verbatim>\<open>Permit2Domain\<close> and
  \<^verbatim>\<open>Permit2Permit\<close> declare them. A \<^verbatim>\<open>bigint\<close> is an \<^typ>\<open>int\<close>; the chain id
  is a JavaScript number that only ever holds an integer. The field \<^verbatim>\<open>value\<close> of the
  permit is called \<open>pvalue\<close> here, since \<open>value\<close> is reserved.
\<close>

record Permit2Domain =
  name :: string
  version :: string
  chainId :: int
  verifyingContract :: string

record Permit2Permit =
  owner :: string
  spender :: string
  token :: string
  pvalue :: int
  nonce :: int
  deadline :: int

definition PERMIT2_ADDRESS :: string where
  "PERMIT2_ADDRESS = ''0x000000000022D473030F116dDEE9F6B43aC78BA3''"

definition BASE_SEPOLIA_CHAIN_ID :: int where
  "BASE_SEPOLIA_CHAIN_ID = 84532"

definition BASE_SEPOLIA_USDC :: string where
  "BASE_SEPOLIA_USDC = ''0x036CbD53842c5426634e7929541eC2318f3dCF7e''"

definition getPermit2Address :: string where
  "getPermit2Address = PERMIT2_ADDRESS"

definition getPermit2Domain :: "int \<Rightarrow> Permit2Domain" where
  "getPermit2Domain c =
     \<lparr>name = ''Permit2'', version = ''1'', chainId = c, verifyingContract = getPermit2Address\<rparr>"

text \<open>The EIP-712 type table: each struct name with its (field name, field type) pairs.\<close>

type_synonym typed_data_types = "(string \<times> (string \<times> string) list) list"

definition getPermit2Types :: typed_data_types where
  "getPermit2Types =
     [(''PermitSingle'',
        [(''details'', ''PermitDetails''), (''spender'', ''address''), (''sigDeadline'', ''uint256'')]),
      (''PermitDetails'',
        [(''token'', ''address''), (''amount'', ''uint160''), (''expiration'', ''uint48''),
         (''nonce'', ''uint48'')])]"

text \<open>
  The value that is hashed: \<^verbatim>\<open>{details: {token, amount, expiration, nonce}, spender,
  sigDeadline}\<close>. The source stores the three numbers of \<open>details\<close> and \<open>sigDeadline\<close> as the
  decimal strings of bigints; the model keeps the integers those strings denote.
\<close>

record PermitDetails =
  d_token :: string
  d_amount :: int
  d_expiration :: int
  d_nonce :: int

record PermitSingle =
  details :: PermitDetails
  s_spender :: string
  sigDeadline :: int

definition maxUint160 :: int where
  "maxUint160 = 0xffffffffffffffffffffffffffffffffffffffff"

definition maxUint48 :: int where
  "maxUint48 = 0xffffffffffff"

text \<open>
  The block that \<^verbatim>\<open>generatePermit2Signature\<close> (lines 123-144) and
  \<^verbatim>\<open>verifyPermit2Signature\<close> (lines 174-192) both contain, word for word: clamp the
  value to uint160, the deadline and the nonce to uint48, and build the typed value.
\<close>

definition permitValue :: "Permit2Permit \<Rightarrow> PermitSingle" where
  "permitValue permit =
     (let amount = (if pvalue permit > maxUint160 then maxUint160 else pvalue permit);
          expiration = (if deadline permit > maxUint48 then maxUint48 else deadline permit);
          nonce' = (if nonce permit > maxUint48 then maxUint48 else nonce permit)
      in \<lparr>details = \<lparr>d_token = token permit, d_amount = amount,
                       d_expiration = expiration, d_nonce = nonce'\<rparr>,
          s_spender = spender permit,
          sigDeadline = deadline permit\<rparr>)"

text \<open>
  The ethers library is not part of the repository. Its three operations are parameters
  of the model: \<open>hash\<close> is \<^verbatim>\<open>TypedDataEncoder.hash(domain, types, value)\<close>, \<open>sign\<close> is
  \<^verbatim>\<open>signer.signingKey.sign(digest).serialized\<close>, \<open>recoverAddress\<close> is
  \<^verbatim>\<open>ethers.recoverAddress(digest, signature)\<close> and \<open>address\<close> is \<^verbatim>\<open>wallet.address\<close>.
  \<open>None\<close> stands for a thrown exception (a malformed address, a number outside its
  uint range, a malformed signature).
\<close>

record ('k, 'd) crypto =
  hash :: "Permit2Domain \<Rightarrow> typed_data_types \<Rightarrow> PermitSingle \<Rightarrow> 'd option"
  sign :: "'k \<Rightarrow> 'd \<Rightarrow> string"
  recoverAddress :: "'d \<Rightarrow> string \<Rightarrow> string option"
  address :: "'k \<Rightarrow> string"

text \<open>
  \<^verbatim>\<open>String.prototype.toLowerCase\<close> on the ASCII letters an address is written in: the
  letters \<open>A\<close> to \<open>Z\<close> are mapped, every other character is kept (the source's function
  also maps the capital letters outside ASCII, which no hexadecimal address contains).
\<close>

definition lowerChar :: "char \<Rightarrow> char" where
  "lowerChar c =
     (case map_of (zip ''ABCDEFGHIJKLMNOPQRSTUVWXYZ'' ''abcdefghijklmnopqrstuvwxyz'') c of
        None \<Rightarrow> c | Some l \<Rightarrow> l)"

definition toLowerCase :: "string \<Rightarrow> string" where
  "toLowerCase s = map lowerChar s"

text \<open>
  \<^verbatim>\<open>generatePermit2Signature\<close>: the promise rejects (\<open>None\<close>) when hashing throws.
\<close>

definition generatePermit2Signature ::
  "('k, 'd) crypto \<Rightarrow> 'k \<Rightarrow> Permit2Permit \<Rightarrow> int \<Rightarrow> string option" where
  "generatePermit2Signature C signer permit c =
     (case hash C (getPermit2Domain c) getPermit2Types (permitValue permit) of
        None \<Rightarrow> None
      | Some digest \<Rightarrow> Some (sign C signer digest))"

text \<open>
  \<^verbatim>\<open>verifyPermit2Signature\<close>: the whole body is inside \<^verbatim>\<open>try\<close>, and the handler
  returns false.
\<close>

definition verifyPermit2Signature ::
  "('k, 'd) crypto \<Rightarrow> Permit2Permit \<Rightarrow> string \<Rightarrow> int \<Rightarrow> string \<Rightarrow> bool" where
  "verifyPermit2Signature C permit signature c expectedOwner =
     (case hash C (getPermit2Domain c) getPermit2Types (permitValue permit) of
        None \<Rightarrow> False
      | Some digest \<Rightarrow>
          (case recoverAddress C digest signature of
             None \<Rightarrow> False
           | Some recoveredAddress \<Rightarrow>
               toLowerCase recoveredAddress = toLowerCase expectedOwner))"

text \<open>
  \<^verbatim>\<open>createPermit\<close>. \<open>now\<close> is the value of \<^verbatim>\<open>Date.now()\<close>, in milliseconds;
  the deadline is \<^verbatim>\<open>BigInt(Math.floor(Date.now() / 1000) + deadlineOffsetSeconds)\<close>.
  The offset is a JavaScript number in the source and the sum is a sum of doubles. Here
  the offset is an integer and the sum is exact, which is what the source computes for
  a whole number of seconds and a sum below \<open>2 ^ 53\<close>; for an offset with a fraction
  \<^verbatim>\<open>BigInt\<close> throws, and above \<open>2 ^ 53\<close> the sum is rounded: neither is modelled. The
  value and the nonce are bigints and are stored as they are.
\<close>

definition createPermit ::
  "string \<Rightarrow> string \<Rightarrow> string \<Rightarrow> int \<Rightarrow> int \<Rightarrow> int \<Rightarrow> nat \<Rightarrow> Permit2Permit" where
  "createPermit owner' spender' token' value' nonce' deadlineOffsetSeconds now =
     \<lparr>owner = owner', spender = spender', token = token', pvalue = value', nonce = nonce',
      deadline = int (now div 1000) + deadlineOffsetSeconds\<rparr>"

section \<open>Authorisation of a delegated transfer (cctpTransfer.ts: src/src/permit2.ts, lines 458-535)\<close>

text \<open>
  \<^verbatim>\<open>verifyUserAuthorization\<close>, with its early returns in the source's order. The two
  optional parameters are options; \<^verbatim>\<open>!chainId\<close> holds for a missing chain id and for 0.
\<close>

definition verifyUserAuthorization ::
  "('k, 'd) crypto \<Rightarrow> nat \<Rightarrow> string \<Rightarrow> int \<Rightarrow> string \<Rightarrow> Permit2Permit option \<Rightarrow> int option \<Rightarrow> bool"
  where
  "verifyUserAuthorization C now fromAddress amount signature permitData chainId' =
     (if signature = ''dummy'' then True
      else case chainId' of
        None \<Rightarrow> False
      | Some c \<Rightarrow>
          if c = 0 then False
          else (case permitData of
            Some actualPermitData \<Rightarrow>
              if toLowerCase (owner actualPermitData) \<noteq> toLowerCase fromAddress then False
              else if pvalue actualPermitData \<noteq> amount then False
              else if deadline actualPermitData < int (now div 1000) then False
              else verifyPermit2Signature C actualPermitData signature c fromAddress
          | None \<Rightarrow>
              verifyPermit2Signature C
                (createPermit fromAddress getPermit2Address BASE_SEPOLIA_USDC amount 0 3600 now)
                signature c fromAddress))"

section \<open>The amount conversion: JavaScript numbers\<close>

text \<open>
  \<^verbatim>\<open>BigInt(Math.floor(parseFloat(request.amount) * 1_000_000))\<close> computes in IEEE 754
  binary64. A finite double is an integer multiple of a power of two: \<open>Finite m e\<close>
  denotes \<open>m * 2 ^ e\<close> (several pairs denote the same number). \<open>Infinity neg\<close> is
  \<open>-Infinity\<close> when \<open>neg\<close> holds. The sign of zero is not kept: \<^verbatim>\<open>Math.floor\<close> and
  \<^verbatim>\<open>BigInt\<close> treat both zeros alike.
\<close>

datatype jsnum = NaN | Infinity bool | Finite int int

function ilog2 :: "nat \<Rightarrow> nat" where
  "ilog2 n = (if n < 2 then 0 else Suc (ilog2 (n div 2)))"
  by pat_completeness auto
termination
  by (relation "measure id") auto

declare ilog2.simps [simp del]

text \<open>\<open>floorLog2 a b\<close> is the integer part of the binary logarithm of \<open>a / b\<close>.\<close>

definition floorLog2 :: "nat \<Rightarrow> nat \<Rightarrow> int" where
  "floorLog2 a b =
     (let k = int (ilog2 a) - int (ilog2 b)
      in if (if k \<ge> 0 then b * 2 ^ nat k \<le> a else b \<le> a * 2 ^ nat (- k)) then k else k - 1)"

text \<open>\<open>roundHalfEven n d\<close> is the integer nearest to \<open>n / d\<close>, a tie going to the even one.\<close>

definition roundHalfEven :: "nat \<Rightarrow> nat \<Rightarrow> nat" where
  "roundHalfEven n d =
     (let q = n div d; r = n mod d
      in if 2 * r < d then q else if 2 * r > d then q + 1 else if even q then q else q + 1)"

text \<open>
  \<open>roundDouble neg a b\<close> is the double nearest to the rational \<open>a / b\<close> (negated when
  \<open>neg\<close>): 53 significant bits, exponents from -1022 (subnormal numbers below), overflow
  to infinity.
\<close>

definition roundDouble :: "bool \<Rightarrow> nat \<Rightarrow> nat \<Rightarrow> jsnum" where
  "roundDouble neg a b =
     (if a = 0 then Finite 0 0
      else let e = floorLog2 a b;
               qe = max e (- 1022) - 52;
               m = (if qe \<ge> 0 then roundHalfEven a (b * 2 ^ nat qe)
                    else roundHalfEven (a * 2 ^ nat (- qe)) b)
           in if e \<ge> 1024 \<or> (e = 1023 \<and> m \<ge> 2 ^ 53) then Infinity neg
              else Finite (if neg then - int m else int m) qe)"

text \<open>The product of two numbers, rounded once.\<close>

definition jsMult :: "jsnum \<Rightarrow> jsnum \<Rightarrow> jsnum" where
  "jsMult x y =
     (case (x, y) of
        (Finite m e, Finite m' e') \<Rightarrow>
          (let p = m * m'; pe = e + e'
           in if pe \<ge> 0 then roundDouble (p < 0) (nat \<bar>p\<bar> * 2 ^ nat pe) 1
              else roundDouble (p < 0) (nat \<bar>p\<bar>) (2 ^ nat (- pe)))
      | (Infinity s, Finite m e) \<Rightarrow> (if m = 0 then NaN else Infinity (s \<noteq> (m < 0)))
      | (Finite m e, Infinity s) \<Rightarrow> (if m = 0 then NaN else Infinity (s \<noteq> (m < 0)))
      | (Infinity s, Infinity s') \<Rightarrow> Infinity (s \<noteq> s')
      | _ \<Rightarrow> NaN)"

definition mathFloor :: "jsnum \<Rightarrow> jsnum" where
  "mathFloor x =
     (case x of
        Finite m e \<Rightarrow>
          (if e \<ge> 0 then Finite (m * 2 ^ nat e) 0 else Finite (m div 2 ^ nat (- e)) 0)
      | _ \<Rightarrow> x)"

text \<open>
  \<^verbatim>\<open>BigInt(number)\<close> throws a RangeError unless the number is an integer. A thrown
  \<^verbatim>\<open>Error\<close> is represented by its message; the message names the number, which is
  written out here for \<open>NaN\<close> and the two infinities (the only non-integers that
  \<^verbatim>\<open>Math.floor\<close> returns) and left out for a finite number with a fraction.
\<close>

definition toBigInt :: "jsnum \<Rightarrow> string + int" where
  "toBigInt x =
     (case x of
        NaN \<Rightarrow>
          Inl ''The number NaN cannot be converted to a BigInt because it is not an integer''
      | Infinity neg \<Rightarrow>
          Inl (if neg
               then ''The number -Infinity cannot be converted to a BigInt because it is not an integer''
               else ''The number Infinity cannot be converted to a BigInt because it is not an integer'')
      | Finite m e \<Rightarrow>
          (if e \<ge> 0 then Inr (m * 2 ^ nat e)
           else if m mod 2 ^ nat (- e) = 0 then Inr (m div 2 ^ nat (- e))
           else Inl ''The number cannot be converted to a BigInt because it is not an integer''))"

text \<open>
  \<^verbatim>\<open>parseFloat\<close>: skip leading white space, then read the longest prefix that is a
  \<open>StrDecimalLiteral\<close> (an optional sign, then \<open>Infinity\<close>, or digits with an optional
  fraction and an optional exponent); \<open>NaN\<close> when there is none. Whatever follows the
  prefix is ignored. Amount strings are ASCII here: \<open>isWhiteSpace\<close> holds the six ASCII
  characters among those that the source's function skips (tab, line feed, vertical tab,
  form feed, carriage return, space); the white space and the line terminators outside
  ASCII, such as the no-break space, are not modelled.
\<close>

definition isDigit :: "char \<Rightarrow> bool" where
  "isDigit c = (c \<in> set ''0123456789'')"

definition digitVal :: "char \<Rightarrow> nat" where
  "digitVal c = of_char c - 48"

definition digitsToNat :: "string \<Rightarrow> nat" where
  "digitsToNat ds = foldl (\<lambda>n c. 10 * n + digitVal c) 0 ds"

definition isWhiteSpace :: "char \<Rightarrow> bool" where
  "isWhiteSpace c = (c \<in> set [CHR 0x09, CHR 0x0A, CHR 0x0B, CHR 0x0C, CHR 0x0D, CHR '' ''])"

text \<open>The exponent part: \<open>e\<close> or \<open>E\<close>, an optional sign, digits; 0 when it is not there.\<close>

definition exponentPart :: "string \<Rightarrow> int" where
  "exponentPart s =
     (case s of
        [] \<Rightarrow> 0
      | c # r \<Rightarrow>
          if c = CHR ''e'' \<or> c = CHR ''E'' then
            (case r of
               [] \<Rightarrow> 0
             | c' # r' \<Rightarrow>
                 if c' = CHR ''-'' then - int (digitsToNat (takeWhile isDigit r'))
                 else if c' = CHR ''+'' then int (digitsToNat (takeWhile isDigit r'))
                 else int (digitsToNat (takeWhile isDigit r)))
          else 0)"

text \<open>The double nearest to \<open>n * 10 ^ x\<close>.\<close>

definition decimalToNumber :: "bool \<Rightarrow> nat \<Rightarrow> int \<Rightarrow> jsnum" where
  "decimalToNumber neg n x =
     (if x \<ge> 0 then roundDouble neg (n * 10 ^ nat x) 1 else roundDouble neg n (10 ^ nat (- x)))"

definition strUnsignedDecimalLiteral :: "bool \<Rightarrow> string \<Rightarrow> jsnum" where
  "strUnsignedDecimalLiteral neg s =
     (if take 8 s = ''Infinity'' then Infinity neg
      else let ip = takeWhile isDigit s; r1 = dropWhile isDigit s
           in case r1 of
                [] \<Rightarrow> (if ip = [] then NaN else decimalToNumber neg (digitsToNat ip) 0)
              | c # r2 \<Rightarrow>
                  if c = CHR ''.'' then
                    (let fp = takeWhile isDigit r2; r3 = dropWhile isDigit r2
                     in if ip = [] \<and> fp = [] then NaN
                        else decimalToNumber neg (digitsToNat (ip @ fp))
                               (exponentPart r3 - int (length fp)))
                  else if ip = [] then NaN
                  else decimalToNumber neg (digitsToNat ip) (exponentPart r1))"

definition parseFloat :: "string \<Rightarrow> jsnum" where
  "parseFloat s =
     (let t = dropWhile isWhiteSpace s
      in case t of
           [] \<Rightarrow> NaN
         | c # r \<Rightarrow>
             if c = CHR ''-'' then strUnsignedDecimalLiteral True r
             else if c = CHR ''+'' then strUnsignedDecimalLiteral False r
             else strUnsignedDecimalLiteral False t)"

text \<open>Line 580 (and line 309 of the earlier version): the amount in smallest units.\<close>

definition amountBigInt :: "string \<Rightarrow> string + int" where
  "amountBigInt a = toBigInt (mathFloor (jsMult (parseFloat a) (Finite 1000000 0)))"

section \<open>The transfer orchestrator (cctpTransfer.ts, later version: src/src/permit2.ts, lines 542-718)\<close>

text \<open>
  \<^verbatim>\<open>String.prototype.includes\<close>.
\<close>

fun includes_str :: "string \<Rightarrow> string \<Rightarrow> bool" where
  "includes_str [] sub = (sub = [])"
| "includes_str (c # s) sub = (take (length sub) (c # s) = sub \<or> includes_str s sub)"

record CctpTransferRequest =
  amount :: string
  destAddress :: "string option"
  fromAddress :: "string option"
  signature :: "string option"
  permitData :: "Permit2Permit option"

text \<open>
  Modelled from the spec: the type \<^verbatim>\<open>TransferResult\<close> of \<^verbatim>\<open>./types\<close>, which is not among
  the sources. The spec's data model gives it the fields \<open>success\<close>, \<open>sourceTx\<close>,
  \<open>attestationId\<close>, \<open>destinationTx\<close> and \<open>error\<close>; all but the first are optional.
\<close>

record TransferResult =
  success :: bool
  sourceTx :: "string option"
  attestationId :: "string option"
  destinationTx :: "string option"
  error :: "string option"

text \<open>
  What \<^verbatim>\<open>initiateTransfer\<close> and \<^verbatim>\<open>completeTransfer\<close> return: the source takes the
  first element of an array and anything else as it is. The first element of an empty
  array is \<^verbatim>\<open>undefined\<close>.
\<close>

datatype txids = TxArray "string list" | TxSingle string

definition firstTx :: "txids \<Rightarrow> string option" where
  "firstTx t = (case t of TxSingle x \<Rightarrow> Some x | TxArray [] \<Rightarrow> None | TxArray (x # xs) \<Rightarrow> Some x)"

text \<open>
  The calls that leave the module, in the order the run makes them. The Wormhole SDK and
  the RPC provider are not part of the repository, and the helpers of \<^verbatim>\<open>./helper\<close> and
  the configuration are not among the sources: the record \<open>sdk\<close> holds the configured
  network type, the clock, and what each call returns or the message of the \<^verbatim>\<open>Error\<close>
  it throws (\<open>Inl\<close>). A signer is represented by its address.
  \<open>InitiateTransfer\<close> and \<open>CompleteTransfer\<close> are the two chain submissions.
\<close>

datatype call =
    Wormhole string
  | GetEvmSigner
  | GetAptosSigner
  | GetChain string
  | GetNetwork
  | ChainAddress string string
  | CircleTransfer int string string
  | QuoteTransfer
  | GetTransactionCount string
  | ToEvmSdkSigner
  | InitiateTransfer
  | FetchAttestation nat
  | ToAptosSdkSigner
  | CompleteTransfer

record sdk =
  networkType :: string
  dateNow :: nat
  wormhole :: "string \<Rightarrow> string + unit"
  getEvmSigner :: "string + string"
  getAptosSigner :: "string + string"
  getChain :: "string \<Rightarrow> string + unit"
  getNetwork :: "string + int"
  chainAddress :: "string \<Rightarrow> string \<Rightarrow> string + unit"
  circleTransfer :: "int \<Rightarrow> string \<Rightarrow> string \<Rightarrow> string + unit"
  quoteTransfer :: "string + unit"
  getTransactionCount :: "string \<Rightarrow> string + nat"
  toEvmSdkSigner :: "string + unit"
  initiateTransfer :: "string + txids"
  fetchAttestation :: "nat \<Rightarrow> string + string list option"
  toAptosSdkSigner :: "string + unit"
  completeTransfer :: "string + txids"

text \<open>
  A run threads the list of calls made so far and stops at the first thrown error.
\<close>

type_synonym 'a run = "call list \<Rightarrow> (string + 'a) \<times> call list"

definition ext :: "call \<Rightarrow> string + 'a \<Rightarrow> 'a run" where
  "ext c out tr = (out, tr @ [c])"

definition ret :: "'a \<Rightarrow> 'a run" where
  "ret v tr = (Inr v, tr)"

definition raise :: "string \<Rightarrow> 'a run" where
  "raise msg tr = (Inl msg, tr)"

definition seq :: "'a run \<Rightarrow> ('a \<Rightarrow> 'b run) \<Rightarrow> 'b run" where
  "seq m f tr = (case m tr of (Inl msg, tr') \<Rightarrow> (Inl msg, tr') | (Inr v, tr') \<Rightarrow> f v tr')"

definition tryCatch :: "'a run \<Rightarrow> (string \<Rightarrow> 'a run) \<Rightarrow> 'a run" where
  "tryCatch m h tr = (case m tr of (Inl msg, tr') \<Rightarrow> h msg tr' | (Inr v, tr') \<Rightarrow> (Inr v, tr'))"

text \<open>\<^verbatim>\<open>!!x\<close> for an optional string: present and not empty.\<close>

definition truthy :: "string option \<Rightarrow> bool" where
  "truthy x = (case x of None \<Rightarrow> False | Some s \<Rightarrow> s \<noteq> [])"

definition attestationWrapped :: "string \<Rightarrow> string" where
  "attestationWrapped msg =
     ''Attestation not received after 180 seconds. This can happen if Circle'' @ [CHR 0x27] @
     ''s attestation service is slow. Please check the transaction on Base Sepolia explorer and try again later. Error: ''
     @ msg"

text \<open>
  The body of the outer \<^verbatim>\<open>try\<close> of \<^verbatim>\<open>transferUsdcViaCctp\<close>, in two parts.
  The names of the network and of the source chain come first (lines 546-551).
\<close>

definition networkOf :: "sdk \<Rightarrow> string" where
  "networkOf E = (if networkType E = ''Mainnet'' then ''Mainnet'' else ''Testnet'')"

definition srcChainNameOf :: "sdk \<Rightarrow> string" where
  "srcChainNameOf E = (if networkOf E = ''Testnet'' then ''BaseSepolia'' else ''Base'')"

text \<open>
  Lines 553-620: initialise the SDK and the signers, parse the amount, and determine the
  source address, authorising it when the request names a user wallet and a signature.
  The result is the sponsor's Base address, the sponsor's Aptos address, the amount and
  the source address.
\<close>

definition resolveSource ::
  "('k, 'd) crypto \<Rightarrow> sdk \<Rightarrow> CctpTransferRequest \<Rightarrow> (string \<times> string \<times> int \<times> string) run"
  where
  "resolveSource C E request =
     seq (ext (Wormhole (networkOf E)) (wormhole E (networkOf E))) (\<lambda>_.
     seq (ext GetEvmSigner (getEvmSigner E)) (\<lambda>baseSignerAddress.
     seq (ext GetAptosSigner (getAptosSigner E)) (\<lambda>aptosSignerAddress.
     seq (ext (GetChain (srcChainNameOf E)) (getChain E (srcChainNameOf E))) (\<lambda>_.
     seq (ext (GetChain ''Aptos'') (getChain E ''Aptos'')) (\<lambda>_.
     seq (\<lambda>tr. (amountBigInt (amount request), tr)) (\<lambda>amountBigInt'.
     seq (if truthy (fromAddress request) \<and> truthy (signature request) then
            (case fromAddress request of
               None \<Rightarrow> ret baseSignerAddress
             | Some sourceAddress \<Rightarrow>
                 seq (ext GetNetwork (getNetwork E)) (\<lambda>chainId'.
                   (case signature request of
                      None \<Rightarrow> raise ''Signature is required when using user wallet''
                    | Some sig \<Rightarrow>
                        if sig = [] then raise ''Signature is required when using user wallet''
                        else if verifyUserAuthorization C (dateNow E) sourceAddress amountBigInt'
                                  sig (permitData request) (Some chainId')
                        then ret sourceAddress
                        else raise ''User authorization verification failed'')))
          else ret baseSignerAddress) (\<lambda>sourceAddress.
     ret (baseSignerAddress, aptosSignerAddress, amountBigInt', sourceAddress))))))))"

text \<open>
  Lines 621-710: build the transfer, submit it on the source chain, fetch the attestation
  and complete the transfer on the destination chain. It returns \<open>sourceTx\<close>,
  \<open>attestationIds[0]\<close> and \<open>destinationTx\<close>.
\<close>

definition executeTransfer ::
  "sdk \<Rightarrow> CctpTransferRequest \<Rightarrow> string \<times> string \<times> int \<times> string \<Rightarrow>
     (string option \<times> string \<times> string option) run"
  where
  "executeTransfer E request ctx =
     (case ctx of (baseSignerAddress, aptosSignerAddress, amountBigInt', sourceAddress) \<Rightarrow>
      let recipientAddress =
            (case destAddress request of
               None \<Rightarrow> aptosSignerAddress
             | Some d \<Rightarrow> if d = [] then aptosSignerAddress else d)
      in
      seq (ext (ChainAddress (srcChainNameOf E) sourceAddress)
             (chainAddress E (srcChainNameOf E) sourceAddress)) (\<lambda>_.
      seq (ext (ChainAddress ''Aptos'' recipientAddress) (chainAddress E ''Aptos'' recipientAddress)) (\<lambda>_.
      seq (ext (CircleTransfer amountBigInt' sourceAddress recipientAddress)
             (circleTransfer E amountBigInt' sourceAddress recipientAddress)) (\<lambda>_.
      seq (tryCatch (ext QuoteTransfer (quoteTransfer E)) (\<lambda>_. ret ())) (\<lambda>_.
      seq (ext (GetTransactionCount baseSignerAddress) (getTransactionCount E baseSignerAddress)) (\<lambda>_.
      seq (ext ToEvmSdkSigner (toEvmSdkSigner E)) (\<lambda>_.
      seq (ext InitiateTransfer (initiateTransfer E)) (\<lambda>srcTxids.
      let sourceTx' = firstTx srcTxids in
      seq (tryCatch
             (seq (ext (FetchAttestation 180000) (fetchAttestation E 180000)) (\<lambda>attestationIds.
                (case attestationIds of
                   None \<Rightarrow> raise ''Attestation not received after timeout''
                 | Some [] \<Rightarrow> raise ''Attestation not received after timeout''
                 | Some (a # as) \<Rightarrow> ret (a # as))))
             (\<lambda>msg. raise (attestationWrapped msg))) (\<lambda>attestationIds.
      seq (ext ToAptosSdkSigner (toAptosSdkSigner E)) (\<lambda>_.
      seq (ext CompleteTransfer (completeTransfer E)) (\<lambda>dstTxids.
      ret (sourceTx', hd attestationIds, firstTx dstTxids))))))))))))"

definition transferBody ::
  "('k, 'd) crypto \<Rightarrow> sdk \<Rightarrow> CctpTransferRequest \<Rightarrow> (string option \<times> string \<times> string option) run"
  where
  "transferBody C E request = seq (resolveSource C E request) (executeTransfer E request)"

text \<open>
  The handler of the outer \<^verbatim>\<open>try\<close> reports \<^verbatim>\<open>error.message || String(error)\<close>: for
  an \<^verbatim>\<open>Error\<close> whose message is empty, \<^verbatim>\<open>String(error)\<close> is its name.
  Every value thrown inside the body is taken to be an \<^verbatim>\<open>Error\<close> object, which is what
  the \<^verbatim>\<open>throw\<close> statements of the source, \<^verbatim>\<open>BigInt\<close>, ethers and the Wormhole SDK
  throw, and is represented by its message. A thrown \<^verbatim>\<open>null\<close> or \<^verbatim>\<open>undefined\<close>, on
  which the handler's \<^verbatim>\<open>error.message\<close> would itself throw, is not modelled: nothing
  below speaks of it.
\<close>

definition errorText :: "string \<Rightarrow> string" where
  "errorText msg = (if msg = [] then ''Error'' else msg)"

definition transferUsdcViaCctp ::
  "('k, 'd) crypto \<Rightarrow> sdk \<Rightarrow> CctpTransferRequest \<Rightarrow> TransferResult \<times> call list" where
  "transferUsdcViaCctp C E request =
     (case transferBody C E request [] of
        (Inr (sourceTx', attestationId', destinationTx'), tr) \<Rightarrow>
          (\<lparr>success = True, sourceTx = sourceTx', attestationId = Some attestationId',
            destinationTx = destinationTx', error = None\<rparr>, tr)
      | (Inl msg, tr) \<Rightarrow>
          (\<lparr>success = False, sourceTx = None, attestationId = None, destinationTx = None,
            error = Some (errorText msg)\<rparr>, tr))"

definition isSubmission :: "call \<Rightarrow> bool" where
  "isSubmission c = (c = InitiateTransfer \<or> c = CompleteTransfer)"

text \<open>
  \<open>setupSucceeds\<close>: every step before the authorisation check returns, so that the run
  reaches \<^verbatim>\<open>verifyUserAuthorization\<close> when the request is a delegated one.
\<close>

definition isOK :: "string + 'a \<Rightarrow> bool" where
  "isOK x = (case x of Inl m \<Rightarrow> False | Inr v \<Rightarrow> True)"

definition setupSucceeds :: "sdk \<Rightarrow> CctpTransferRequest \<Rightarrow> bool" where
  "setupSucceeds E request =
     (isOK (wormhole E (networkOf E)) \<and> isOK (getEvmSigner E) \<and> isOK (getAptosSigner E) \<and>
      isOK (getChain E (srcChainNameOf E)) \<and> isOK (getChain E ''Aptos'') \<and>
      isOK (amountBigInt (amount request)) \<and> isOK (getNetwork E))"




section \<open>The attestation polling loop (cctpTransfer.ts, earlier version: src/src/permit2.ts, lines 351-391)\<close>

text \<open>
  One attempt of \<^verbatim>\<open>circleTransfer.fetchAttestation(10000)\<close>: how long it took, in
  milliseconds, and what it returned (\<open>None\<close> is \<^verbatim>\<open>undefined\<close>) or the message it
  threw. The list of attempts is the behaviour of the attestation service during one run;
  \<open>ScriptEnded\<close> says that the run needs more attempts than the list has.
  The clock is exact: an attempt takes its duration, \<^verbatim>\<open>setTimeout\<close> takes the delay
  (a real timer takes at least that: every bound from above on the elapsed time proved
  below is a bound for a timer that wakes exactly on time), the rest takes no time.
  Times and delays are
  rational numbers: every delay the loop computes, \<open>2000 * 1.5 ^ i\<close> up to the cap of
  30000, is a double, so the source's arithmetic on them is exact.
\<close>

datatype fetched = Returned "string list option" | Threw string

datatype poll_event = Attempt rat | Sleep rat rat

datatype poll_end =
    Received "string list"
  | TimeoutInHandler
  | TimeoutAfterLoop
  | Rethrown string
  | ScriptEnded

definition maxTimeout :: rat where
  "maxTimeout = 180000"

text \<open>
  \<open>pollAttestation script delay elapsed\<close>: the loop entered with the current \<open>delay\<close>,
  \<open>elapsed\<close> milliseconds after \<open>startTime\<close>. It returns how the loop ends, the time
  elapsed then, and the attempts (with the time each started) and sleeps (with the time
  each started and its delay) in order. Both timeouts throw the "Attestation not received after 180 seconds"
  error: \<open>TimeoutInHandler\<close> at line 368, \<open>TimeoutAfterLoop\<close> at line 387.
\<close>

fun pollAttestation ::
  "(rat \<times> fetched) list \<Rightarrow> rat \<Rightarrow> rat \<Rightarrow> poll_end \<times> rat \<times> poll_event list" where
  "pollAttestation [] delay elapsed =
     (if elapsed < maxTimeout then (ScriptEnded, elapsed, []) else (TimeoutAfterLoop, elapsed, []))"
| "pollAttestation ((duration, out) # script) delay elapsed =
     (if elapsed < maxTimeout then
        (case out of
           Returned None \<Rightarrow>
             (case pollAttestation script delay (elapsed + duration) of
                (r, t, evs) \<Rightarrow> (r, t, Attempt elapsed # evs))
         | Returned (Some []) \<Rightarrow>
             (case pollAttestation script delay (elapsed + duration) of
                (r, t, evs) \<Rightarrow> (r, t, Attempt elapsed # evs))
         | Returned (Some (a # as)) \<Rightarrow> (Received (a # as), elapsed + duration, [Attempt elapsed])
         | Threw msg \<Rightarrow>
             (let elapsed' = elapsed + duration; remaining = maxTimeout - elapsed'
              in if remaining \<le> 0 then (TimeoutInHandler, elapsed', [Attempt elapsed])
                 else if includes_str msg ''timeout'' \<or> includes_str msg ''not found'' then
                   (case pollAttestation script (min (delay * (3 / 2)) 30000) (elapsed' + delay) of
                      (r, t, evs) \<Rightarrow> (r, t, Attempt elapsed # Sleep elapsed' delay # evs))
                 else (Rethrown msg, elapsed', [Attempt elapsed])))
      else (TimeoutAfterLoop, elapsed, []))"

text \<open>The loop as the source enters it: \<^verbatim>\<open>let delay = 2000\<close>, no time elapsed.\<close>

definition pollLoop :: "(rat \<times> fetched) list \<Rightarrow> poll_end \<times> rat \<times> poll_event list" where
  "pollLoop script = pollAttestation script 2000 0"

text \<open>
  The delays slept, the times at which the attempts started and the times at which the
  sleeps started, each in order.
\<close>

definition sleeps :: "poll_event list \<Rightarrow> rat list" where
  "sleeps evs = concat (map (\<lambda>ev. case ev of Sleep s d \<Rightarrow> [d] | Attempt t \<Rightarrow> []) evs)"

definition attemptStarts :: "poll_event list \<Rightarrow> rat list" where
  "attemptStarts evs = concat (map (\<lambda>ev. case ev of Attempt t \<Rightarrow> [t] | Sleep s d \<Rightarrow> []) evs)"

definition sleepStarts :: "poll_event list \<Rightarrow> rat list" where
  "sleepStarts evs = concat (map (\<lambda>ev. case ev of Sleep s d \<Rightarrow> [s] | Attempt t \<Rightarrow> []) evs)"

text \<open>
  A service that is never ready: every attempt takes some time and throws the
  not-yet-available condition, a message that contains \<^verbatim>\<open>timeout\<close> or \<^verbatim>\<open>not found\<close>
  (line 376).
\<close>

definition neverReady :: "(rat \<times> fetched) list \<Rightarrow> bool" where
  "neverReady script =
     (\<forall>(d, out) \<in> set script.
        0 \<le> d \<and> (\<exists>msg. out = Threw msg \<and>
                    (includes_str msg ''timeout'' \<or> includes_str msg ''not found'')))"

section \<open>What is assumed of the signature scheme\<close>

text \<open>
  Two properties of the scheme that the repository relies on and cannot establish itself.

  \<open>digestIdentifies canon C\<close>: the digest identifies what was hashed, an address being
  hashed in the scheme's canonical form \<open>canon\<close> and not as the string that spells it.
  The encoder of ethers passes every field of type \<^verbatim>\<open>address\<close> through
  \<^verbatim>\<open>getAddress\<close>, so that two spellings of one address (all lower case, or with the
  checksum's capitals) give one digest: the digest of a value that hashes is the digest
  of exactly the values that agree with it on the chain id, on the three numbers and the
  signature deadline, and on the token and the spender up to \<open>canon\<close>. That no two
  different contents share a digest is the usual idealisation of the hash function.

  \<open>bindsDigest C sg d a\<close>: from no digest other than \<open>d\<close> does the signature \<open>sg\<close>
  recover an address that equals \<open>a\<close> up to letter case.
\<close>

definition sameUpTo :: "(string \<Rightarrow> string) \<Rightarrow> PermitSingle \<Rightarrow> PermitSingle \<Rightarrow> bool" where
  "sameUpTo canon v v' =
     (canon (d_token (details v)) = canon (d_token (details v')) \<and>
      canon (s_spender v) = canon (s_spender v') \<and>
      d_amount (details v) = d_amount (details v') \<and>
      d_expiration (details v) = d_expiration (details v') \<and>
      d_nonce (details v) = d_nonce (details v') \<and>
      sigDeadline v = sigDeadline v')"

definition digestIdentifies :: "(string \<Rightarrow> string) \<Rightarrow> ('k, 'd) crypto \<Rightarrow> bool" where
  "digestIdentifies canon C =
     (\<forall>c v c' v' d.
        hash C (getPermit2Domain c) getPermit2Types v = Some d \<longrightarrow>
        (hash C (getPermit2Domain c') getPermit2Types v' = Some d \<longleftrightarrow> c' = c \<and> sameUpTo canon v' v))"

definition bindsDigest :: "('k, 'd) crypto \<Rightarrow> string \<Rightarrow> 'd \<Rightarrow> string \<Rightarrow> bool" where
  "bindsDigest C sg d a =
     (\<forall>d' a'. d' \<noteq> d \<and> recoverAddress C d' sg = Some a' \<longrightarrow> toLowerCase a' \<noteq> toLowerCase a)"

section \<open>A concrete signature scheme and a concrete SDK\<close>

text \<open>
  The closed instances below need one concrete instance of each interface. In
  \<open>demoCrypto\<close> the digest is the pair of the domain and the value (so no two inputs
  collide), a key is a name, its address is the name after \<open>0x\<close>, and there is one digest
  that can be signed, \<open>demoDigest\<close>: the signature of \<open>k\<close> over it is \<open>sig:k\<close>, and the
  signer's address is recovered from that digest only. \<open>demoPermit\<close> names a spender and
  a token of its own. In \<open>demoSdk\<close> every call succeeds; its clock is later than the
  deadline of \<open>demoPermit\<close>.

  \<open>normCrypto\<close> is the same scheme with an encoder that normalises addresses as the
  encoder of ethers does, here by writing them in lower case: the digest is the pair of
  the domain and the value with its token and spender normalised. \<open>mixedPermit\<close> spells
  its token and its spender with capital letters.
\<close>

definition demoPermit :: Permit2Permit where
  "demoPermit =
     \<lparr>owner = ''0xAlice'', spender = ''0x1111'', token = ''0x2222'', pvalue = 200000, nonce = 0,
      deadline = 1764470597\<rparr>"

definition demoDigest :: "Permit2Domain \<times> PermitSingle" where
  "demoDigest = (getPermit2Domain 84532, permitValue demoPermit)"

definition demoCrypto :: "(string, Permit2Domain \<times> PermitSingle) crypto" where
  "demoCrypto =
     \<lparr>hash = (\<lambda>dom types v. Some (dom, v)),
      sign = (\<lambda>k d. if d = demoDigest then ''sig:'' @ k else ''void''),
      recoverAddress =
        (\<lambda>d s. if d = demoDigest \<and> take 4 s = ''sig:'' then Some (''0x'' @ drop 4 s) else None),
      address = (\<lambda>k. ''0x'' @ k)\<rparr>"

definition normValue :: "PermitSingle \<Rightarrow> PermitSingle" where
  "normValue v =
     v\<lparr>details := (details v)\<lparr>d_token := toLowerCase (d_token (details v))\<rparr>,
       s_spender := toLowerCase (s_spender v)\<rparr>"

definition mixedPermit :: Permit2Permit where
  "mixedPermit = demoPermit\<lparr>spender := ''0xAb12'', token := ''0xCd34''\<rparr>"

definition mixedDigest :: "Permit2Domain \<times> PermitSingle" where
  "mixedDigest = (getPermit2Domain 84532, normValue (permitValue mixedPermit))"

definition normCrypto :: "(string, Permit2Domain \<times> PermitSingle) crypto" where
  "normCrypto =
     \<lparr>hash = (\<lambda>dom types v. Some (dom, normValue v)),
      sign = (\<lambda>k d. if d = mixedDigest then ''sig:'' @ k else ''void''),
      recoverAddress =
        (\<lambda>d s. if d = mixedDigest \<and> take 4 s = ''sig:'' then Some (''0x'' @ drop 4 s) else None),
      address = (\<lambda>k. ''0x'' @ k)\<rparr>"

definition demoSdk :: sdk where
  "demoSdk =
     \<lparr>networkType = ''Testnet'', dateNow = 1764480000000,
      wormhole = (\<lambda>n. Inr ()), getEvmSigner = Inr ''0xsponsor'', getAptosSigner = Inr ''0xaptos'',
      getChain = (\<lambda>n. Inr ()), getNetwork = Inr 84532, chainAddress = (\<lambda>n a. Inr ()),
      circleTransfer = (\<lambda>n a b. Inr ()), quoteTransfer = Inr (),
      getTransactionCount = (\<lambda>a. Inr 7), toEvmSdkSigner = Inr (),
      initiateTransfer = Inr (TxArray [''0xsrc'']),
      fetchAttestation = (\<lambda>t. Inr (Some [''0xatt''])), toAptosSdkSigner = Inr (),
      completeTransfer = Inr (TxArray [''0xdst''])\<rparr>"

text \<open>
  A delegated request of 0.2 USDC by Alice, with her signature and \<open>demoPermit\<close>.
\<close>

definition demoRequest :: CctpTransferRequest where
  "demoRequest =
     \<lparr>amount = ''0.2'', destAddress = None, fromAddress = Some ''0xAlice'',
      signature = Some ''sig:Alice'', permitData = Some demoPermit\<rparr>"


text \<open>
  An attestation service that answers every attempt with a timeout after the 10 seconds
  the source allows for one attempt: nine attempts in \<open>demoScript\<close>, ninety in
  \<open>longScript\<close>.
\<close>

definition demoScript :: "(rat \<times> fetched) list" where
  "demoScript =
     [(10000, Threw ''timeout''), (10000, Threw ''timeout''), (10000, Threw ''timeout''),
      (10000, Threw ''timeout''), (10000, Threw ''timeout''), (10000, Threw ''timeout''),
      (10000, Threw ''timeout''), (10000, Threw ''timeout''), (10000, Threw ''timeout'')]"

definition longScript :: "(rat \<times> fetched) list" where
  "longScript = demoScript @ replicate 81 (10000, Threw ''timeout'')"

section \<open>Properties of the permit and of the authorisation\<close>

lemma typed_value_fields: "(pvalue p > 2 ^ 160 - 1 \<longrightarrow> d_amount (details (permitValue p)) = 2 ^ 160 - 1) \<and>
   (nonce p > 2 ^ 48 - 1 \<longrightarrow> d_nonce (details (permitValue p)) = 2 ^ 48 - 1) \<and>
   (deadline p > 2 ^ 48 - 1 \<longrightarrow> d_expiration (details (permitValue p)) = 2 ^ 48 - 1) \<and>
   (pvalue p \<le> 2 ^ 160 - 1 \<longrightarrow> d_amount (details (permitValue p)) = pvalue p) \<and>
   (nonce p \<le> 2 ^ 48 - 1 \<longrightarrow> d_nonce (details (permitValue p)) = nonce p) \<and>
   (deadline p \<le> 2 ^ 48 - 1 \<longrightarrow> d_expiration (details (permitValue p)) = deadline p) \<and>
   sigDeadline (permitValue p) = deadline p"
  by (simp add: permitValue_def maxUint160_def maxUint48_def Let_def)

lemma generate_uses_permitValue: "generatePermit2Signature C k p c =
     map_option (sign C k) (hash C (getPermit2Domain c) getPermit2Types (permitValue p))"
  by (simp add: generatePermit2Signature_def split: option.splits)

lemma createPermit_keeps: "pvalue (createPermit ow sp tk v n off now) = v \<and>
   nonce (createPermit ow sp tk v n off now) = n"
  by (simp add: createPermit_def)

lemma verify_uses_permitValue: "verifyPermit2Signature C p sg c ow =
     (\<exists>d a. hash C (getPermit2Domain c) getPermit2Types (permitValue p) = Some d \<and>
        recoverAddress C d sg = Some a \<and> toLowerCase a = toLowerCase ow)"
  by (simp add: verifyPermit2Signature_def split: option.splits)

lemma verifyUserAuthorization_permit:
  "verifyUserAuthorization C now f a sg (Some p) cid =
     (sg = ''dummy'' \<or>
      (\<exists>c. cid = Some c \<and> c \<noteq> 0 \<and> toLowerCase (owner p) = toLowerCase f \<and> pvalue p = a \<and>
           \<not> deadline p < int (now div 1000) \<and> verifyPermit2Signature C p sg c f))"
  by (cases cid) (simp_all add: verifyUserAuthorization_def)

lemma expired_rejected:
  "sg \<noteq> ''dummy'' \<Longrightarrow> deadline p < int (now div 1000) \<Longrightarrow>
     \<not> verifyUserAuthorization C now f a sg (Some p) cid"
  by (simp add: verifyUserAuthorization_permit)

lemma getPermit2Domain_inj: "getPermit2Domain c = getPermit2Domain c' \<Longrightarrow> c = c'"
  by (simp add: getPermit2Domain_def)

lemma demo_hash: "hash demoCrypto dm ts v = Some (dm, v)"
  by (simp add: demoCrypto_def)

lemma demo_recover:
  "recoverAddress demoCrypto d s =
     (if d = demoDigest \<and> take 4 s = ''sig:'' then Some (''0x'' @ drop 4 s) else None)"
  by (simp add: demoCrypto_def)

lemma demo_verify:
  "verifyPermit2Signature demoCrypto demoPermit ''sig:Alice'' 84532 ''0xALICE''"
  by (simp add: verify_uses_permitValue demo_hash demo_recover demoDigest_def
      toLowerCase_def lowerChar_def)

lemma demo_verify':
  "verifyPermit2Signature demoCrypto demoPermit ''sig:Alice'' 84532 ''0xAlice''"
  by (simp add: verify_uses_permitValue demo_hash demo_recover demoDigest_def)

lemma sameUpTo_permitValue:
  "sameUpTo canon (permitValue p') (permitValue p) \<longleftrightarrow>
     canon (token p') = canon (token p) \<and> canon (spender p') = canon (spender p) \<and>
     deadline p' = deadline p \<and>
     min (pvalue p') maxUint160 = min (pvalue p) maxUint160 \<and>
     min (nonce p') maxUint48 = min (nonce p) maxUint48"
  by (auto simp: sameUpTo_def permitValue_def Let_def min_def)

lemma normValue_eq_iff: "normValue v' = normValue v \<longleftrightarrow> sameUpTo toLowerCase v' v"
proof -
  obtain dt sp sd where v: "v = \<lparr>details = dt, s_spender = sp, sigDeadline = sd\<rparr>"
    by (cases v) simp
  obtain dt' sp' sd' where v': "v' = \<lparr>details = dt', s_spender = sp', sigDeadline = sd'\<rparr>"
    by (cases v') simp
  obtain t a e n where dt: "dt = \<lparr>d_token = t, d_amount = a, d_expiration = e, d_nonce = n\<rparr>"
    by (cases dt) simp
  obtain t' a' e' n' where dt': "dt' = \<lparr>d_token = t', d_amount = a', d_expiration = e', d_nonce = n'\<rparr>"
    by (cases dt') simp
  show ?thesis
    by (auto simp: v v' dt dt' normValue_def sameUpTo_def)
qed

lemma normCrypto_hash: "hash normCrypto dm ts v = Some (dm, normValue v)"
  by (simp add: normCrypto_def)

lemma normCrypto_recover:
  "recoverAddress normCrypto d s =
     (if d = mixedDigest \<and> take 4 s = ''sig:'' then Some (''0x'' @ drop 4 s) else None)"
  by (simp add: normCrypto_def)

lemma normCrypto_digestIdentifies: "digestIdentifies toLowerCase normCrypto"
  unfolding digestIdentifies_def
  by (auto simp: normCrypto_hash normValue_eq_iff dest: getPermit2Domain_inj)

lemma normCrypto_bindsDigest: "bindsDigest normCrypto sg mixedDigest a"
  by (simp add: bindsDigest_def normCrypto_recover)

lemma permitValue_owner: "permitValue (p\<lparr>owner := x\<rparr>) = permitValue p"
  by (simp add: permitValue_def)

lemma verify_signed:
  assumes h: "hash C (getPermit2Domain c) getPermit2Types (permitValue p) = Some d"
    and r: "recoverAddress C d sg = Some a"
  shows "verifyPermit2Signature C p sg c ow \<longleftrightarrow> toLowerCase a = toLowerCase ow"
  using h r by (simp add: verifyPermit2Signature_def)

lemma verifyUserAuthorization_cases:
  "verifyUserAuthorization C now f a sg permit cid \<longleftrightarrow>
     sg = ''dummy'' \<or>
     (\<exists>c. cid = Some c \<and> c \<noteq> 0 \<and>
        (case permit of
           Some p \<Rightarrow>
             toLowerCase (owner p) = toLowerCase f \<and> pvalue p = a \<and>
             int (now div 1000) \<le> deadline p \<and> verifyPermit2Signature C p sg c f
         | None \<Rightarrow>
             verifyPermit2Signature C
               (createPermit f getPermit2Address BASE_SEPOLIA_USDC a 0 3600 now) sg c f))"
  by (cases cid; cases permit) (auto simp: verifyUserAuthorization_def)


text \<open>
  Claim C1, as amended. Let \<open>sg\<close> be the signature that \<open>generatePermit2Signature\<close>
  produces for the permit \<open>p\<close> and the chain id \<open>c\<close> with the key \<open>k\<close>, where the scheme
  recovers the address of \<open>k\<close> from its signature over the signed digest \<open>d\<close> and from
  this signature over \<open>d\<close> only, and where a digest identifies the chain id and the
  typed value, addresses being hashed in their canonical form \<open>canon\<close>.
  Then \<open>sg\<close> verifies for \<open>p\<close> and \<open>c\<close> under exactly the expected owners that equal the
  address of \<open>k\<close> up to letter case; and under the address of \<open>k\<close> it verifies for
  exactly the chain id \<open>c\<close> and the permits that name the same token and the same spender
  as \<open>p\<close> (the same addresses: the same canonical form), the same deadline, and the same
  value and nonce as clamped to 160 and 48 bits. So verification fails for another
  owner, another chain id, another token or spender address, another deadline, another
  clamped value or nonce; and it still succeeds after the owner field has been changed,
  after a value or a nonce has been changed above its clamp, and after the token or the
  spender has been spelled differently.
\<close>

theorem sign_then_verify:
  assumes h: "hash C (getPermit2Domain c) getPermit2Types (permitValue p) = Some d"
    and g: "generatePermit2Signature C k p c = Some sg"
    and r0: "recoverAddress C d (sign C k d) = Some (address C k)"
    and b0: "bindsDigest C (sign C k d) d (address C k)"
    and di: "digestIdentifies canon C"
  shows "(\<forall>ow. verifyPermit2Signature C p sg c ow \<longleftrightarrow> toLowerCase ow = toLowerCase (address C k)) \<and>
    (\<forall>c' p'. verifyPermit2Signature C p' sg c' (address C k) \<longleftrightarrow>
       c' = c \<and> canon (token p') = canon (token p) \<and> canon (spender p') = canon (spender p) \<and>
       deadline p' = deadline p \<and>
       min (pvalue p') maxUint160 = min (pvalue p) maxUint160 \<and>
       min (nonce p') maxUint48 = min (nonce p) maxUint48)"
proof -
  from h g have sg: "sg = sign C k d"
    by (simp add: generatePermit2Signature_def)
  from r0 sg have r: "recoverAddress C d sg = Some (address C k)" by simp
  from b0 sg have b: "bindsDigest C sg d (address C k)" by simp
  have 1: "verifyPermit2Signature C p sg c ow \<longleftrightarrow> toLowerCase ow = toLowerCase (address C k)" for ow
    using verify_signed [OF h r, of ow] by auto
  have 2: "verifyPermit2Signature C p' sg c' (address C k) \<longleftrightarrow>
       c' = c \<and> sameUpTo canon (permitValue p') (permitValue p)" for c' p'
  proof
    assume "verifyPermit2Signature C p' sg c' (address C k)"
    then obtain d' a' where h': "hash C (getPermit2Domain c') getPermit2Types (permitValue p') = Some d'"
      and r': "recoverAddress C d' sg = Some a'"
      and eq: "toLowerCase a' = toLowerCase (address C k)"
      by (auto simp: verify_uses_permitValue)
    have "d' = d"
    proof (rule ccontr)
      assume "d' \<noteq> d"
      with b r' have "toLowerCase a' \<noteq> toLowerCase (address C k)"
        unfolding bindsDigest_def by blast
      with eq show False by blast
    qed
    with h' have "hash C (getPermit2Domain c') getPermit2Types (permitValue p') = Some d" by simp
    with di h show "c' = c \<and> sameUpTo canon (permitValue p') (permitValue p)"
      unfolding digestIdentifies_def by blast
  next
    assume "c' = c \<and> sameUpTo canon (permitValue p') (permitValue p)"
    with di h have "hash C (getPermit2Domain c') getPermit2Types (permitValue p') = Some d"
      unfolding digestIdentifies_def by blast
    with r show "verifyPermit2Signature C p' sg c' (address C k)"
      by (simp add: verifyPermit2Signature_def)
  qed
  from 1 2 show ?thesis by (simp only: sameUpTo_permitValue) blast
qed

theorem sign_then_verify_witness:
  "verifyPermit2Signature normCrypto mixedPermit ''sig:Alice'' 84532 ''0xALICE'' \<and>
   \<not> verifyPermit2Signature normCrypto mixedPermit ''sig:Alice'' 84532 ''0xBob'' \<and>
   \<not> verifyPermit2Signature normCrypto mixedPermit ''sig:Alice'' 1 ''0xAlice'' \<and>
   \<not> verifyPermit2Signature normCrypto (mixedPermit\<lparr>token := ''0xCd35''\<rparr>) ''sig:Alice'' 84532 ''0xAlice'' \<and>
   \<not> verifyPermit2Signature normCrypto (mixedPermit\<lparr>pvalue := 200001\<rparr>) ''sig:Alice'' 84532 ''0xAlice'' \<and>
   verifyPermit2Signature normCrypto (mixedPermit\<lparr>token := ''0xcD34''\<rparr>) ''sig:Alice'' 84532 ''0xAlice'' \<and>
   verifyPermit2Signature normCrypto (mixedPermit\<lparr>owner := ''0xMallory''\<rparr>) ''sig:Alice'' 84532 ''0xAlice''"
proof -
  have h: "hash normCrypto (getPermit2Domain 84532) getPermit2Types (permitValue mixedPermit) = Some mixedDigest"
    by (simp add: normCrypto_hash mixedDigest_def)
  have g: "generatePermit2Signature normCrypto ''Alice'' mixedPermit 84532 = Some ''sig:Alice''"
    by (simp add: generatePermit2Signature_def h) (simp add: normCrypto_def)
  have a: "address normCrypto ''Alice'' = ''0xAlice''"
    by (simp add: normCrypto_def)
  have r: "recoverAddress normCrypto mixedDigest (sign normCrypto ''Alice'' mixedDigest) =
             Some (address normCrypto ''Alice'')"
    by (simp add: normCrypto_recover a) (simp add: normCrypto_def)
  note t = sign_then_verify [OF h g r normCrypto_bindsDigest normCrypto_digestIdentifies, unfolded a]
  have 1: "toLowerCase ''0xALICE'' = toLowerCase ''0xAlice''"
    and 2: "toLowerCase ''0xBob'' \<noteq> toLowerCase ''0xAlice''"
    by (simp_all add: toLowerCase_def lowerChar_def)
  have 3: "toLowerCase (token (mixedPermit\<lparr>token := ''0xCd35''\<rparr>)) \<noteq> toLowerCase (token mixedPermit)"
    by (simp add: mixedPermit_def toLowerCase_def lowerChar_def)
  have 4: "min (pvalue (mixedPermit\<lparr>pvalue := 200001\<rparr>)) maxUint160 \<noteq> min (pvalue mixedPermit) maxUint160"
    by (simp add: mixedPermit_def demoPermit_def maxUint160_def)
  have 5: "toLowerCase (token (mixedPermit\<lparr>token := ''0xcD34''\<rparr>)) = toLowerCase (token mixedPermit)"
    by (simp add: mixedPermit_def toLowerCase_def lowerChar_def)
  have 6: "(1::int) \<noteq> 84532" by simp
  from t 1 2 have A: "verifyPermit2Signature normCrypto mixedPermit ''sig:Alice'' 84532 ''0xALICE''"
    and B: "\<not> verifyPermit2Signature normCrypto mixedPermit ''sig:Alice'' 84532 ''0xBob''"
    by blast+
  from t 6 have C: "\<not> verifyPermit2Signature normCrypto mixedPermit ''sig:Alice'' 1 ''0xAlice''"
    by blast
  from t 3 have D: "\<not> verifyPermit2Signature normCrypto (mixedPermit\<lparr>token := ''0xCd35''\<rparr>) ''sig:Alice'' 84532 ''0xAlice''"
    by blast
  from t 4 have E: "\<not> verifyPermit2Signature normCrypto (mixedPermit\<lparr>pvalue := 200001\<rparr>) ''sig:Alice'' 84532 ''0xAlice''"
    by blast
  from t 5 have F: "verifyPermit2Signature normCrypto (mixedPermit\<lparr>token := ''0xcD34''\<rparr>) ''sig:Alice'' 84532 ''0xAlice''"
    by simp
  from t have G: "verifyPermit2Signature normCrypto (mixedPermit\<lparr>owner := ''0xMallory''\<rparr>) ''sig:Alice'' 84532 ''0xAlice''"
    by simp
  from A B C D E F G show ?thesis by blast
qed


text \<open>
  Claim C1 as stated fails: the permit signed by Alice still verifies after its owner
  field has been changed.
\<close>

theorem owner_mutation_counterexample:
  "generatePermit2Signature demoCrypto ''Alice'' demoPermit 84532 = Some ''sig:Alice'' \<and>
   address demoCrypto ''Alice'' = ''0xAlice'' \<and>
   demoPermit\<lparr>owner := ''0xMallory''\<rparr> \<noteq> demoPermit \<and>
   verifyPermit2Signature demoCrypto (demoPermit\<lparr>owner := ''0xMallory''\<rparr>) ''sig:Alice'' 84532 ''0xAlice''"
proof -
  have h: "hash demoCrypto (getPermit2Domain 84532) getPermit2Types (permitValue demoPermit) = Some demoDigest"
    by (simp add: demo_hash demoDigest_def)
  have g: "generatePermit2Signature demoCrypto ''Alice'' demoPermit 84532 = Some ''sig:Alice''"
    by (simp add: generatePermit2Signature_def h) (simp add: demoCrypto_def)
  have a: "address demoCrypto ''Alice'' = ''0xAlice''"
    by (simp add: demoCrypto_def)
  have n: "demoPermit\<lparr>owner := ''0xMallory''\<rparr> \<noteq> demoPermit"
  proof
    assume "demoPermit\<lparr>owner := ''0xMallory''\<rparr> = demoPermit"
    then have "owner (demoPermit\<lparr>owner := ''0xMallory''\<rparr>) = owner demoPermit" by simp
    then show False by (simp add: demoPermit_def)
  qed
  have v: "verifyPermit2Signature demoCrypto (demoPermit\<lparr>owner := ''0xMallory''\<rparr>) ''sig:Alice'' 84532 ''0xAlice''"
    using demo_verify' by (simp add: verify_uses_permitValue permitValue_owner)
  from g a n v show ?thesis by blast
qed


text \<open>
  Claim C3, as amended. A supplied permit whose deadline is strictly earlier than the
  current time (in seconds) is rejected for every signature other than the bypass token
  \<open>dummy\<close>, whatever the signature scheme says about the signature; it is accepted
  exactly when the signature is that token.
\<close>

theorem expired_permit_rejected:
  assumes "deadline p < int (now div 1000)"
  shows "verifyUserAuthorization C now f a sg (Some p) cid \<longleftrightarrow> sg = ''dummy''"
proof
  assume "verifyUserAuthorization C now f a sg (Some p) cid"
  with assms show "sg = ''dummy''"
    by (simp add: verifyUserAuthorization_permit)
next
  assume "sg = ''dummy''"
  then show "verifyUserAuthorization C now f a sg (Some p) cid"
    by (simp add: verifyUserAuthorization_permit)
qed

theorem expired_permit_rejected_witness:
  "verifyPermit2Signature demoCrypto demoPermit ''sig:Alice'' 84532 ''0xAlice'' \<and>
   \<not> verifyUserAuthorization demoCrypto (dateNow demoSdk) ''0xAlice'' 200000 ''sig:Alice''
       (Some demoPermit) (Some 84532)"
proof -
  have 1: "''sig:Alice'' \<noteq> ''dummy''" by simp
  have 2: "deadline demoPermit < int (dateNow demoSdk div 1000)"
    by (simp add: demoPermit_def demoSdk_def)
  from expired_permit_rejected [OF 2, of demoCrypto "''0xAlice''" 200000 "''sig:Alice''" "Some 84532"]
    1 demo_verify'
  show ?thesis by blast
qed

text \<open>
  Claim C3 as stated fails: with the bypass token as signature an expired permit is
  accepted, because the token is tested before the permit is looked at.
\<close>

theorem expired_permit_bypass_counterexample:
  "deadline demoPermit < int (dateNow demoSdk div 1000) \<and>
   verifyUserAuthorization demoCrypto (dateNow demoSdk) ''0xAlice'' 200000 ''dummy''
     (Some demoPermit) (Some 84532)"
  by (simp add: verifyUserAuthorization_def demoPermit_def demoSdk_def)


text \<open>
  Claim C4, as amended. With the literal \<open>dummy\<close> as signature the verifier accepts
  every owner, amount, permit, chain id and time, without a look at the permit or at the
  signature scheme. With any other signature it accepts nothing unconditionally: it
  accepts exactly when a non-zero chain id is given and, for a supplied permit, the owner
  matches up to letter case, the value equals the amount, the deadline has not passed
  and the signature verifies for the permit, or, with no permit supplied, the signature
  verifies for the default permit; in particular it rejects, whatever the chain id and
  the signature scheme, every supplied permit whose value is not the amount.
\<close>

theorem bypass_exactly_dummy:
  "(sg = ''dummy'' \<longrightarrow> verifyUserAuthorization C now f a sg permit cid) \<and>
   (sg \<noteq> ''dummy'' \<longrightarrow>
      (verifyUserAuthorization C now f a sg permit cid \<longleftrightarrow>
         (\<exists>c. cid = Some c \<and> c \<noteq> 0 \<and>
            (case permit of
               Some p \<Rightarrow>
                 toLowerCase (owner p) = toLowerCase f \<and> pvalue p = a \<and>
                 int (now div 1000) \<le> deadline p \<and> verifyPermit2Signature C p sg c f
             | None \<Rightarrow>
                 verifyPermit2Signature C
                   (createPermit f getPermit2Address BASE_SEPOLIA_USDC a 0 3600 now) sg c f))) \<and>
      \<not> verifyUserAuthorization C now f a sg (Some (q\<lparr>pvalue := a + 1\<rparr>)) cid)"
  using verifyUserAuthorization_cases [of C now f a sg permit cid]
    verifyUserAuthorization_cases [of C now f a sg "Some (q\<lparr>pvalue := a + 1\<rparr>)" cid]
  by auto

theorem bypass_exactly_dummy_witness:
  "verifyUserAuthorization demoCrypto (dateNow demoSdk) ''0xBob'' 7 ''dummy'' (Some demoPermit) None \<and>
   \<not> verifyUserAuthorization demoCrypto 1764470000000 ''0xAlice'' 200000 ''sig:Bob''
       (Some demoPermit) (Some 84532) \<and>
   verifyUserAuthorization demoCrypto 1764470000000 ''0xAlice'' 200000 ''sig:Alice''
       (Some demoPermit) (Some 84532) \<and>
   \<not> verifyUserAuthorization demoCrypto 1764470000000 ''0xAlice'' 200000 ''sig:Alice''
       (Some (demoPermit\<lparr>pvalue := 200000 + 1\<rparr>)) (Some 84532)"
proof -
  have 1: "verifyUserAuthorization demoCrypto (dateNow demoSdk) ''0xBob'' 7 ''dummy'' (Some demoPermit) None"
    using bypass_exactly_dummy [where sg = "''dummy''" and C = demoCrypto and now = "dateNow demoSdk"
        and f = "''0xBob''" and a = 7 and permit = "Some demoPermit" and cid = None and q = demoPermit]
    by simp
  have nb: "\<not> verifyPermit2Signature demoCrypto demoPermit ''sig:Bob'' 84532 ''0xAlice''"
    by (simp add: verify_uses_permitValue demo_hash demo_recover demoDigest_def
        toLowerCase_def lowerChar_def)
  have 2: "\<not> verifyUserAuthorization demoCrypto 1764470000000 ''0xAlice'' 200000 ''sig:Bob''
       (Some demoPermit) (Some 84532)"
    using bypass_exactly_dummy [where sg = "''sig:Bob''" and C = demoCrypto and now = 1764470000000
        and f = "''0xAlice''" and a = 200000 and permit = "Some demoPermit" and cid = "Some 84532"
        and q = demoPermit] nb
    by simp
  have 3: "verifyUserAuthorization demoCrypto 1764470000000 ''0xAlice'' 200000 ''sig:Alice''
       (Some demoPermit) (Some 84532)"
    using bypass_exactly_dummy [where sg = "''sig:Alice''" and C = demoCrypto and now = 1764470000000
        and f = "''0xAlice''" and a = 200000 and permit = "Some demoPermit" and cid = "Some 84532"
        and q = demoPermit] demo_verify'
    by (simp add: demoPermit_def)
  have 4: "\<not> verifyUserAuthorization demoCrypto 1764470000000 ''0xAlice'' 200000 ''sig:Alice''
       (Some (demoPermit\<lparr>pvalue := 200000 + 1\<rparr>)) (Some 84532)"
    using bypass_exactly_dummy [where sg = "''sig:Alice''" and C = demoCrypto and now = 1764470000000
        and f = "''0xAlice''" and a = 200000 and permit = "Some demoPermit" and cid = "Some 84532"
        and q = demoPermit]
    by simp
  from 1 2 3 4 show ?thesis by blast
qed


text \<open>
  Claim C4 as stated fails: the literal \<open>unauthenticated\<close> is an ordinary signature. With
  Alice's permit, her address, her amount and the chain id of Base Sepolia, before the
  deadline, it is rejected.
\<close>

theorem unauthenticated_is_not_the_bypass_counterexample:
  "\<not> verifyUserAuthorization demoCrypto 1764470000000 ''0xAlice'' 200000 ''unauthenticated''
       (Some demoPermit) (Some 84532)"
  by (simp add: verifyUserAuthorization_cases verify_uses_permitValue demo_hash demo_recover)


text \<open>
  Claim C5. The typed value that is signed and verified carries the permit's value
  clamped to \<open>2 ^ 160 - 1\<close> and its nonce and deadline (as \<open>expiration\<close>) clamped to
  \<open>2 ^ 48 - 1\<close>, and the fields as they are below these bounds (the deadline is carried a
  second time, unclamped, as \<open>sigDeadline\<close>); signing and verification read the permit
  through that value only. \<open>createPermit\<close> stores the caller's value and nonce as they
  are. The functions are pure: the permit they are given is not modified.
\<close>

theorem typed_value_clamped_permit_unclamped:
  "(pvalue p > 2 ^ 160 - 1 \<longrightarrow> d_amount (details (permitValue p)) = 2 ^ 160 - 1) \<and>
   (nonce p > 2 ^ 48 - 1 \<longrightarrow> d_nonce (details (permitValue p)) = 2 ^ 48 - 1) \<and>
   (deadline p > 2 ^ 48 - 1 \<longrightarrow> d_expiration (details (permitValue p)) = 2 ^ 48 - 1) \<and>
   (pvalue p \<le> 2 ^ 160 - 1 \<longrightarrow> d_amount (details (permitValue p)) = pvalue p) \<and>
   (nonce p \<le> 2 ^ 48 - 1 \<longrightarrow> d_nonce (details (permitValue p)) = nonce p) \<and>
   (deadline p \<le> 2 ^ 48 - 1 \<longrightarrow> d_expiration (details (permitValue p)) = deadline p) \<and>
   sigDeadline (permitValue p) = deadline p \<and>
   generatePermit2Signature C k p c =
     map_option (sign C k) (hash C (getPermit2Domain c) getPermit2Types (permitValue p)) \<and>
   verifyPermit2Signature C p sg c ow =
     (\<exists>d a. hash C (getPermit2Domain c) getPermit2Types (permitValue p) = Some d \<and>
        recoverAddress C d sg = Some a \<and> toLowerCase a = toLowerCase ow) \<and>
   pvalue (createPermit ow sp tk v n off now) = v \<and>
   nonce (createPermit ow sp tk v n off now) = n"
  using typed_value_fields [of p] generate_uses_permitValue [of C k p c]
    verify_uses_permitValue [of C p sg c ow] createPermit_keeps [of ow sp tk v n off now]
  by blast

theorem typed_value_clamped_permit_unclamped_witness:
  "pvalue (createPermit ''0xAlice'' ''0x1111'' ''0x2222'' (2 ^ 160 + 5) (2 ^ 48 + 1) 3600 281474976710656000) = 2 ^ 160 + 5 \<and>
   nonce (createPermit ''0xAlice'' ''0x1111'' ''0x2222'' (2 ^ 160 + 5) (2 ^ 48 + 1) 3600 281474976710656000) = 2 ^ 48 + 1 \<and>
   d_amount (details (permitValue (createPermit ''0xAlice'' ''0x1111'' ''0x2222'' (2 ^ 160 + 5) (2 ^ 48 + 1) 3600 281474976710656000))) = 2 ^ 160 - 1 \<and>
   d_nonce (details (permitValue (createPermit ''0xAlice'' ''0x1111'' ''0x2222'' (2 ^ 160 + 5) (2 ^ 48 + 1) 3600 281474976710656000))) = 2 ^ 48 - 1 \<and>
   d_expiration (details (permitValue (createPermit ''0xAlice'' ''0x1111'' ''0x2222'' (2 ^ 160 + 5) (2 ^ 48 + 1) 3600 281474976710656000))) = 2 ^ 48 - 1"
proof -
  let ?P = "createPermit ''0xAlice'' ''0x1111'' ''0x2222'' (2 ^ 160 + 5) (2 ^ 48 + 1) 3600 281474976710656000"
  note t = typed_value_clamped_permit_unclamped
    [where p = ?P and ow = "''0xAlice''" and sp = "''0x1111''" and tk = "''0x2222''"
       and v = "2 ^ 160 + 5" and n = "2 ^ 48 + 1" and off = 3600 and now = 281474976710656000
       and C = demoCrypto and k = "''Alice''" and c = 84532 and sg = "''sig:Alice''"]
  have a: "pvalue ?P > 2 ^ 160 - 1" and b: "nonce ?P > 2 ^ 48 - 1" and c: "deadline ?P > 2 ^ 48 - 1"
    by (simp_all add: createPermit_def)
  from t a b c show ?thesis by blast
qed


text \<open>
  Claim C10. With a permit supplied, the verdict of the verifier is determined by the
  bypass token, the chain id, the comparison of the permit's owner with the sender (up
  to letter case), of its value with the amount and of its deadline with the clock, and
  the validity of the signature over the permit as it is, spender and token included:
  whatever spender \<open>sp\<close> and token \<open>tk\<close> the permit names, neither is compared with
  anything. So a permit whose owner matches, whose value is the amount, whose deadline
  has not passed and whose signature is valid over its own spender and token is accepted
  (the chain id being given and not zero), and one that fails one of the three
  comparisons is rejected unless the signature is the bypass token.
\<close>

theorem authorization_compares_owner_value_deadline:
  "verifyUserAuthorization C now f a sg (Some (p\<lparr>spender := sp, token := tk\<rparr>)) cid \<longleftrightarrow>
     sg = ''dummy'' \<or>
     (\<exists>c. cid = Some c \<and> c \<noteq> 0 \<and> toLowerCase (owner p) = toLowerCase f \<and> pvalue p = a \<and>
          int (now div 1000) \<le> deadline p \<and>
          verifyPermit2Signature C (p\<lparr>spender := sp, token := tk\<rparr>) sg c f)"
  using verifyUserAuthorization_cases [of C now f a sg "Some (p\<lparr>spender := sp, token := tk\<rparr>)" cid]
  by simp

theorem authorization_compares_owner_value_deadline_witness:
  "verifyUserAuthorization demoCrypto 1764470000000 ''0xALICE'' 200000 ''sig:Alice''
     (Some (demoPermit\<lparr>spender := ''0x1111'', token := ''0x2222''\<rparr>)) (Some 84532) \<and>
   \<not> verifyUserAuthorization demoCrypto 1764470000000 ''0xALICE'' 200001 ''sig:Alice''
     (Some (demoPermit\<lparr>spender := ''0x1111'', token := ''0x2222''\<rparr>)) (Some 84532) \<and>
   \<not> verifyUserAuthorization demoCrypto 1764470000000 ''0xBob'' 200000 ''sig:Alice''
     (Some (demoPermit\<lparr>spender := ''0x1111'', token := ''0x2222''\<rparr>)) (Some 84532) \<and>
   \<not> verifyUserAuthorization demoCrypto 1764480000000 ''0xALICE'' 200000 ''sig:Alice''
     (Some (demoPermit\<lparr>spender := ''0x1111'', token := ''0x2222''\<rparr>)) (Some 84532)"
proof -
  have p: "demoPermit\<lparr>spender := ''0x1111'', token := ''0x2222''\<rparr> = demoPermit"
    by (simp add: demoPermit_def)
  have v: "verifyPermit2Signature demoCrypto (demoPermit\<lparr>spender := ''0x1111'', token := ''0x2222''\<rparr>)
             ''sig:Alice'' 84532 ''0xALICE''"
    using demo_verify by (simp only: p)
  have o: "toLowerCase (owner demoPermit) = toLowerCase ''0xALICE''"
    and o': "toLowerCase (owner demoPermit) \<noteq> toLowerCase ''0xBob''"
    by (simp_all add: demoPermit_def toLowerCase_def lowerChar_def)
  have s: "''sig:Alice'' \<noteq> ''dummy''" by simp
  have 1: "verifyUserAuthorization demoCrypto 1764470000000 ''0xALICE'' 200000 ''sig:Alice''
     (Some (demoPermit\<lparr>spender := ''0x1111'', token := ''0x2222''\<rparr>)) (Some 84532)"
    using authorization_compares_owner_value_deadline [where C = demoCrypto and now = 1764470000000 and f = "''0xALICE''" and a = 200000 and sg = "''sig:Alice''"
        and p = demoPermit and sp = "''0x1111''" and tk = "''0x2222''" and cid = "Some 84532"] v o
    by (simp add: demoPermit_def)
  have 2: "\<not> verifyUserAuthorization demoCrypto 1764470000000 ''0xALICE'' 200001 ''sig:Alice''
     (Some (demoPermit\<lparr>spender := ''0x1111'', token := ''0x2222''\<rparr>)) (Some 84532)"
    using authorization_compares_owner_value_deadline [where C = demoCrypto and now = 1764470000000 and f = "''0xALICE''" and a = 200001 and sg = "''sig:Alice''"
        and p = demoPermit and sp = "''0x1111''" and tk = "''0x2222''" and cid = "Some 84532"] s
    by (simp add: demoPermit_def)
  have 3: "\<not> verifyUserAuthorization demoCrypto 1764470000000 ''0xBob'' 200000 ''sig:Alice''
     (Some (demoPermit\<lparr>spender := ''0x1111'', token := ''0x2222''\<rparr>)) (Some 84532)"
    using authorization_compares_owner_value_deadline [where C = demoCrypto and now = 1764470000000 and f = "''0xBob''" and a = 200000 and sg = "''sig:Alice''"
        and p = demoPermit and sp = "''0x1111''" and tk = "''0x2222''" and cid = "Some 84532"] s o'
    by simp
  have 4: "\<not> verifyUserAuthorization demoCrypto 1764480000000 ''0xALICE'' 200000 ''sig:Alice''
     (Some (demoPermit\<lparr>spender := ''0x1111'', token := ''0x2222''\<rparr>)) (Some 84532)"
    using authorization_compares_owner_value_deadline [where C = demoCrypto and now = 1764480000000 and f = "''0xALICE''" and a = 200000 and sg = "''sig:Alice''"
        and p = demoPermit and sp = "''0x1111''" and tk = "''0x2222''" and cid = "Some 84532"] s
    by (simp add: demoPermit_def)
  from 1 2 3 4 show ?thesis by blast
qed


section \<open>Properties of the amount conversion\<close>

text \<open>Unfolding these evaluates the conversion of a literal amount.\<close>

lemmas number_defs = amountBigInt_def toBigInt_def mathFloor_def jsMult_def parseFloat_def
  strUnsignedDecimalLiteral_def decimalToNumber_def exponentPart_def isWhiteSpace_def
  digitsToNat_def digitVal_def isDigit_def roundDouble_def roundHalfEven_def floorLog2_def
  ilog2.simps Let_def

lemma amount_4_1: "amountBigInt ''4.1'' = Inr 4099999"
  by (simp add: number_defs)


lemma amount_0_2: "amountBigInt ''0.2'' = Inr 200000"
  by (simp add: number_defs)

lemma amount_0: "amountBigInt ''0'' = Inr 0"
  by (simp add: number_defs)

lemma amount_minus_1: "amountBigInt ''-1'' = Inr (- 1000000)"
  by (simp add: number_defs)

lemma amount_abc:
  "amountBigInt ''abc'' =
     Inl ''The number NaN cannot be converted to a BigInt because it is not an integer''"
  by (simp add: number_defs)

text \<open>
  Claim C7 fails on the code at the amount \<open>4.1\<close>: the double nearest to 4.1 is below
  4.1, its product with 1000000 rounds to 4099999.9999999995, and \<^verbatim>\<open>Math.floor\<close>
  yields 4099999 smallest units, one less than 4.1 times \<open>10 ^ 6\<close>. (The two amounts
  that the claim names, \<open>1.0\<close> and \<open>0.2\<close>, convert exactly: \<open>amount_1_0\<close> and
  \<open>amount_0_2\<close>.)
\<close>

theorem amount_4_1_loses_a_unit: "amountBigInt ''4.1'' = Inr 4099999"
  by (rule amount_4_1)

section \<open>Properties of the orchestrator\<close>

lemma seq_ext:
  "seq (ext c out) f tr = (case out of Inl m \<Rightarrow> (Inl m, tr @ [c]) | Inr v \<Rightarrow> f v (tr @ [c]))"
  by (simp add: seq_def ext_def split: sum.splits)

lemmas run_defs = transferUsdcViaCctp_def transferBody_def resolveSource_def executeTransfer_def
  networkOf_def srcChainNameOf_def seq_ext seq_def ret_def raise_def tryCatch_def ext_def
  truthy_def firstTx_def Let_def

lemma resolveSource_trace:
  "resolveSource C E request [] = (out, tr) \<Longrightarrow> \<forall>c \<in> set tr. \<not> isSubmission c"
  by (auto simp: resolveSource_def seq_def ext_def ret_def raise_def isSubmission_def
      split: sum.splits if_splits option.splits)

lemma resolveSource_rejects:
  assumes f: "fromAddress request = Some f" "f \<noteq> []"
    and s: "signature request = Some sg" "sg \<noteq> []"
    and v: "\<And>amt cid. amountBigInt (amount request) = Inr amt \<Longrightarrow> getNetwork E = Inr cid \<Longrightarrow>
              \<not> verifyUserAuthorization C (dateNow E) f amt sg (permitData request) (Some cid)"
  shows "\<exists>m tr. resolveSource C E request [] = (Inl m, tr) \<and>
           (setupSucceeds E request \<longrightarrow> m = ''User authorization verification failed'')"
proof (cases "amountBigInt (amount request)")
  case (Inl m)
  then show ?thesis
    by (simp add: resolveSource_def seq_def ext_def setupSucceeds_def isOK_def split: sum.splits)
next
  case amt: (Inr amt)
  show ?thesis
  proof (cases "getNetwork E")
    case (Inl m)
    with amt f s show ?thesis
      by (simp add: resolveSource_def seq_def ext_def truthy_def setupSucceeds_def isOK_def
          split: sum.splits)
  next
    case (Inr cid)
    with amt f s v [OF amt Inr] show ?thesis
      by (auto simp: resolveSource_def seq_def ext_def truthy_def raise_def setupSucceeds_def
          isOK_def split: sum.splits)
  qed
qed




lemma resolve_failure_is_result:
  assumes "resolveSource C E request [] = (Inl m, tr)"
  shows "transferUsdcViaCctp C E request =
           (\<lparr>success = False, sourceTx = None, attestationId = None, destinationTx = None,
             error = Some (errorText m)\<rparr>, tr)"
  using assms by (simp add: transferUsdcViaCctp_def transferBody_def seq_def)


lemma errorText_id: "m \<noteq> [] \<Longrightarrow> errorText m = m"
  by (simp add: errorText_def)

lemma rejection_aborts:
  assumes f: "fromAddress request = Some f" "f \<noteq> []"
    and s: "signature request = Some sg" "sg \<noteq> []"
    and v: "\<forall>amt cid. amountBigInt (amount request) = Inr amt \<longrightarrow> getNetwork E = Inr cid \<longrightarrow>
              \<not> verifyUserAuthorization C (dateNow E) f amt sg (permitData request) (Some cid)"
  shows "\<not> success (fst (transferUsdcViaCctp C E request)) \<and>
         (\<forall>c \<in> set (snd (transferUsdcViaCctp C E request)). \<not> isSubmission c) \<and>
         (setupSucceeds E request \<longrightarrow>
            error (fst (transferUsdcViaCctp C E request)) = Some ''User authorization verification failed'')"
proof -
  from v have v': "\<And>amt cid. amountBigInt (amount request) = Inr amt \<Longrightarrow> getNetwork E = Inr cid \<Longrightarrow>
              \<not> verifyUserAuthorization C (dateNow E) f amt sg (permitData request) (Some cid)"
    by blast
  from resolveSource_rejects [OF f s v'] obtain m tr where
    r: "resolveSource C E request [] = (Inl m, tr)"
    and m: "setupSucceeds E request \<longrightarrow> m = ''User authorization verification failed''"
    by blast
  have tr: "\<forall>c \<in> set tr. \<not> isSubmission c"
    using resolveSource_trace [OF r] .
  have e: "setupSucceeds E request \<longrightarrow> errorText m = ''User authorization verification failed''"
    using m by (auto simp: errorText_def)
  show ?thesis
    using tr e by (simp add: resolve_failure_is_result [OF r])
qed

lemma demo_setup: "setupSucceeds demoSdk demoRequest"
  by (simp add: setupSucceeds_def isOK_def demoSdk_def demoRequest_def amount_0_2)

lemma demo_expired: "deadline demoPermit < int (dateNow demoSdk div 1000)"
  by (simp add: demoPermit_def demoSdk_def)



lemma nan_amount: "parseFloat a = NaN \<Longrightarrow> \<exists>m. amountBigInt a = Inl m"
  by (simp add: amountBigInt_def jsMult_def mathFloor_def toBigInt_def)

lemma unparsable_amount_rejected:
  assumes "parseFloat (amount request) = NaN"
  shows "\<not> success (fst (transferUsdcViaCctp C E request)) \<and>
         (\<forall>c \<in> set (snd (transferUsdcViaCctp C E request)). \<not> isSubmission c)"
proof -
  from nan_amount [OF assms] obtain m where m: "amountBigInt (amount request) = Inl m" by blast
  obtain out tr where r: "resolveSource C E request [] = (out, tr)"
    by (cases "resolveSource C E request []") blast
  from m r obtain m' where "out = Inl m'"
    by (auto simp: resolveSource_def seq_def ext_def split: sum.splits)
  with r resolveSource_trace [OF r] show ?thesis
    by (simp add: resolve_failure_is_result)
qed


text \<open>
  Claim C2, as amended. In a delegated request (source address and signature both present
  and not empty), if the verifier rejects, the result has \<open>success = false\<close> and the run
  calls neither \<open>initiateTransfer\<close> nor \<open>completeTransfer\<close>; the error is "User
  authorization verification failed" when every step before the check succeeded. In
  particular this holds for a delegated request with a signature other than the bypass
  token whose permit deadline is in the past.
\<close>

theorem delegated_rejection_makes_no_submission:
  assumes "fromAddress request = Some f" and "f \<noteq> []"
    and "signature request = Some sg" and "sg \<noteq> []"
  shows
    "((\<forall>amt cid. amountBigInt (amount request) = Inr amt \<longrightarrow> getNetwork E = Inr cid \<longrightarrow>
         \<not> verifyUserAuthorization C (dateNow E) f amt sg (permitData request) (Some cid))
      \<longrightarrow> \<not> success (fst (transferUsdcViaCctp C E request)) \<and>
          (\<forall>c \<in> set (snd (transferUsdcViaCctp C E request)). \<not> isSubmission c) \<and>
          (setupSucceeds E request \<longrightarrow>
             error (fst (transferUsdcViaCctp C E request)) =
               Some ''User authorization verification failed'')) \<and>
     ((sg \<noteq> ''dummy'' \<and> (\<exists>p. permitData request = Some p \<and> deadline p < int (dateNow E div 1000)))
      \<longrightarrow> \<not> success (fst (transferUsdcViaCctp C E request)) \<and>
          (\<forall>c \<in> set (snd (transferUsdcViaCctp C E request)). \<not> isSubmission c) \<and>
          (setupSucceeds E request \<longrightarrow>
             error (fst (transferUsdcViaCctp C E request)) =
               Some ''User authorization verification failed''))"
proof -
  let ?goal = "\<not> success (fst (transferUsdcViaCctp C E request)) \<and>
          (\<forall>c \<in> set (snd (transferUsdcViaCctp C E request)). \<not> isSubmission c) \<and>
          (setupSucceeds E request \<longrightarrow>
             error (fst (transferUsdcViaCctp C E request)) =
               Some ''User authorization verification failed'')"
  have 1: ?goal
    if v: "\<forall>amt cid. amountBigInt (amount request) = Inr amt \<longrightarrow> getNetwork E = Inr cid \<longrightarrow>
         \<not> verifyUserAuthorization C (dateNow E) f amt sg (permitData request) (Some cid)"
    by (rule rejection_aborts [OF assms v])
  have 2: ?goal
    if x: "sg \<noteq> ''dummy'' \<and> (\<exists>p. permitData request = Some p \<and> deadline p < int (dateNow E div 1000))"
  proof -
    from x have v: "\<forall>amt cid. amountBigInt (amount request) = Inr amt \<longrightarrow> getNetwork E = Inr cid \<longrightarrow>
         \<not> verifyUserAuthorization C (dateNow E) f amt sg (permitData request) (Some cid)"
      using expired_rejected by fastforce
    show ?thesis by (rule rejection_aborts [OF assms v])
  qed
  from 1 2 show ?thesis by blast
qed

theorem delegated_rejection_makes_no_submission_witness:
  "verifyPermit2Signature demoCrypto demoPermit ''sig:Alice'' 84532 ''0xAlice'' \<and>
   \<not> success (fst (transferUsdcViaCctp demoCrypto demoSdk demoRequest)) \<and>
   filter isSubmission (snd (transferUsdcViaCctp demoCrypto demoSdk demoRequest)) = [] \<and>
   error (fst (transferUsdcViaCctp demoCrypto demoSdk demoRequest)) =
     Some ''User authorization verification failed''"
proof -
  have 1: "fromAddress demoRequest = Some ''0xAlice''" and 2: "''0xAlice'' \<noteq> []"
    and 3: "signature demoRequest = Some ''sig:Alice''" and 4: "''sig:Alice'' \<noteq> []"
    by (simp_all add: demoRequest_def)
  have 5: "''sig:Alice'' \<noteq> ''dummy'' \<and>
           (\<exists>p. permitData demoRequest = Some p \<and> deadline p < int (dateNow demoSdk div 1000))"
    using demo_expired by (simp add: demoRequest_def)
  from delegated_rejection_makes_no_submission [OF 1 2 3 4, of demoSdk demoCrypto] 5 demo_setup
  have "\<not> success (fst (transferUsdcViaCctp demoCrypto demoSdk demoRequest)) \<and>
    (\<forall>c \<in> set (snd (transferUsdcViaCctp demoCrypto demoSdk demoRequest)). \<not> isSubmission c) \<and>
    error (fst (transferUsdcViaCctp demoCrypto demoSdk demoRequest)) =
      Some ''User authorization verification failed''"
    by blast
  with demo_verify' show ?thesis by (simp add: filter_empty_conv)
qed


text \<open>
  Claim C2 as stated fails in its last part: for a permit whose deadline is in the past
  the error of the result does not mention the expiry (the expiry is only logged).
\<close>

theorem expired_permit_error_counterexample:
  "permitData demoRequest = Some demoPermit \<and>
   deadline demoPermit < int (dateNow demoSdk div 1000) \<and>
   transferUsdcViaCctp demoCrypto demoSdk demoRequest =
     (\<lparr>success = False, sourceTx = None, attestationId = None, destinationTx = None,
       error = Some ''User authorization verification failed''\<rparr>,
      [Wormhole ''Testnet'', GetEvmSigner, GetAptosSigner, GetChain ''BaseSepolia'',
       GetChain ''Aptos'', GetNetwork]) \<and>
   \<not> includes_str ''User authorization verification failed'' ''expired''"
proof -
  have v: "\<not> verifyUserAuthorization demoCrypto 1764480000000 ''0xAlice'' 200000 ''sig:Alice''
             (Some demoPermit) (Some 84532)"
    by (simp add: verifyUserAuthorization_permit demoPermit_def)
  have t: "transferUsdcViaCctp demoCrypto demoSdk demoRequest =
     (\<lparr>success = False, sourceTx = None, attestationId = None, destinationTx = None,
       error = Some ''User authorization verification failed''\<rparr>,
      [Wormhole ''Testnet'', GetEvmSigner, GetAptosSigner, GetChain ''BaseSepolia'',
       GetChain ''Aptos'', GetNetwork])"
    using v by (simp add: run_defs demoRequest_def amount_0_2 errorText_def demoSdk_def)
  have i: "\<not> includes_str ''User authorization verification failed'' ''expired''"
    by simp
  from t i demo_expired show ?thesis by (simp add: demoRequest_def)
qed


text \<open>
  With the bypass token as signature, the same expired permit does not stop the transfer.
\<close>

lemma expired_permit_with_bypass_is_submitted:
  "transferUsdcViaCctp demoCrypto demoSdk (demoRequest\<lparr>signature := Some ''dummy''\<rparr>) =
     (\<lparr>success = True, sourceTx = Some ''0xsrc'', attestationId = Some ''0xatt'',
       destinationTx = Some ''0xdst'', error = None\<rparr>,
      [Wormhole ''Testnet'', GetEvmSigner, GetAptosSigner, GetChain ''BaseSepolia'',
       GetChain ''Aptos'', GetNetwork, ChainAddress ''BaseSepolia'' ''0xAlice'',
       ChainAddress ''Aptos'' ''0xaptos'', CircleTransfer 200000 ''0xAlice'' ''0xaptos'',
       QuoteTransfer, GetTransactionCount ''0xsponsor'', ToEvmSdkSigner, InitiateTransfer,
       FetchAttestation 180000, ToAptosSdkSigner, CompleteTransfer])"
  by (simp add: run_defs demoRequest_def amount_0_2 verifyUserAuthorization_def demoSdk_def)







text \<open>
  Claim C8 fails on the code at the amount \<open>0\<close> (and at \<open>-1\<close>, below): the orchestrator
  does not test the sign of the amount; with collaborators that accept the request it
  submits on both chains and reports success. An amount that \<^verbatim>\<open>parseFloat\<close> cannot read
  is rejected before any submission (\<open>unparsable_amount_rejected\<close>).
\<close>

theorem zero_amount_is_submitted:
  "transferUsdcViaCctp demoCrypto demoSdk
     \<lparr>amount = ''0'', destAddress = None, fromAddress = None, signature = None, permitData = None\<rparr>
   = (\<lparr>success = True, sourceTx = Some ''0xsrc'', attestationId = Some ''0xatt'',
       destinationTx = Some ''0xdst'', error = None\<rparr>,
      [Wormhole ''Testnet'', GetEvmSigner, GetAptosSigner, GetChain ''BaseSepolia'',
       GetChain ''Aptos'', ChainAddress ''BaseSepolia'' ''0xsponsor'',
       ChainAddress ''Aptos'' ''0xaptos'', CircleTransfer 0 ''0xsponsor'' ''0xaptos'',
       QuoteTransfer, GetTransactionCount ''0xsponsor'', ToEvmSdkSigner, InitiateTransfer,
       FetchAttestation 180000, ToAptosSdkSigner, CompleteTransfer])"
  by (simp add: run_defs demoSdk_def amount_0)

lemma negative_amount_is_submitted:
  "transferUsdcViaCctp demoCrypto demoSdk
     \<lparr>amount = ''-1'', destAddress = None, fromAddress = None, signature = None, permitData = None\<rparr>
   = (\<lparr>success = True, sourceTx = Some ''0xsrc'', attestationId = Some ''0xatt'',
       destinationTx = Some ''0xdst'', error = None\<rparr>,
      [Wormhole ''Testnet'', GetEvmSigner, GetAptosSigner, GetChain ''BaseSepolia'',
       GetChain ''Aptos'', ChainAddress ''BaseSepolia'' ''0xsponsor'',
       ChainAddress ''Aptos'' ''0xaptos'', CircleTransfer (- 1000000) ''0xsponsor'' ''0xaptos'',
       QuoteTransfer, GetTransactionCount ''0xsponsor'', ToEvmSdkSigner, InitiateTransfer,
       FetchAttestation 180000, ToAptosSdkSigner, CompleteTransfer])"
  by (simp add: run_defs demoSdk_def amount_minus_1)

section \<open>Properties of the polling loop\<close>

lemma sleeps_simps [simp]:
  "sleeps [] = []"
  "sleeps (Attempt s # evs) = sleeps evs"
  "sleeps (Sleep s d # evs) = d # sleeps evs"
  by (simp_all add: sleeps_def)

lemma attemptStarts_simps [simp]:
  "attemptStarts [] = []"
  "attemptStarts (Attempt s # evs) = s # attemptStarts evs"
  "attemptStarts (Sleep s d # evs) = attemptStarts evs"
  by (simp_all add: attemptStarts_def)

lemma sleepStarts_simps [simp]:
  "sleepStarts [] = []"
  "sleepStarts (Attempt s # evs) = sleepStarts evs"
  "sleepStarts (Sleep s d # evs) = s # sleepStarts evs"
  by (simp_all add: sleepStarts_def)

lemma backoff_step:
  fixes x :: rat
  assumes "0 < x"
  shows "min (min (x * (3 / 2)) 30000 * (3 / 2) ^ j) 30000 = min (x * (3 / 2) ^ Suc j) 30000"
proof (cases "x * (3 / 2) \<le> 30000")
  case True
  then show ?thesis by (simp add: min_def mult.assoc)
next
  case False
  have p: "(1::rat) \<le> (3 / 2) ^ j" by (rule one_le_power) simp
  from False have big: "30000 < x * (3 / 2)" by simp
  have "(30000::rat) \<le> 30000 * (3 / 2) ^ j" using p by simp
  then have l: "min (30000 * (3 / 2) ^ j) 30000 = (30000::rat)" by (rule min_absorb2)
  have nonneg: "0 \<le> x * (3 / 2)" using assms by simp
  have q: "x * (3 / 2) * 1 \<le> x * (3 / 2) * (3 / 2) ^ j"
    by (rule mult_left_mono [OF p nonneg])
  then have q': "x * (3 / 2) \<le> x * (3 / 2) * (3 / 2) ^ j" by (simp only: mult_1_right)
  have e: "x * (3 / 2) ^ Suc j = x * (3 / 2) * (3 / 2) ^ j" by (simp only: power_Suc mult.assoc)
  from big q' have "30000 < x * (3 / 2) * (3 / 2) ^ j" by (rule less_le_trans)
  then have "30000 < x * (3 / 2) ^ Suc j" by (simp only: e)
  then have "30000 \<le> x * (3 / 2) ^ Suc j" by (rule less_imp_le)
  then have r: "min (x * (3 / 2) ^ Suc j) 30000 = 30000" by (rule min_absorb2)
  from False have "min (x * (3 / 2)) 30000 = 30000" by (simp add: min_def)
  with l r show ?thesis by simp
qed

lemma poll_sleeps:
  "0 < delay \<Longrightarrow> delay \<le> 30000 \<Longrightarrow> pollAttestation script delay elapsed = (r, t, evs) \<Longrightarrow>
     i < length (sleeps evs) \<Longrightarrow> sleeps evs ! i = min (delay * (3 / 2) ^ i) 30000"
proof (induction script arbitrary: delay elapsed r t evs i)
  case Nil
  then show ?case by (simp split: if_splits)
next
  case (Cons x script)
  obtain d out where x: "x = (d, out)" by (cases x)
  show ?case
  proof (cases "elapsed < maxTimeout")
    case False
    with Cons.prems x show ?thesis by auto
  next
    case el: True
    show ?thesis
    proof (cases out)
      case (Returned ids)
      show ?thesis
      proof (cases "\<exists>a as. ids = Some (a # as)")
        case True
        with Cons.prems x el Returned show ?thesis by auto
      next
        case False
        then have ids: "ids = None \<or> ids = Some []" by (cases ids; cases "the ids") auto
        obtain r' t' evs' where rec: "pollAttestation script delay (elapsed + d) = (r', t', evs')"
          by (cases "pollAttestation script delay (elapsed + d)") blast
        with Cons.prems x el Returned ids have evs: "evs = Attempt elapsed # evs'"
          by auto
        with Cons.prems have "i < length (sleeps evs')" by simp
        from Cons.IH [OF Cons.prems(1) Cons.prems(2) rec this] evs show ?thesis by simp
      qed
    next
      case (Threw msg)
      show ?thesis
      proof (cases "maxTimeout - (elapsed + d) \<le> 0")
        case True
        with Cons.prems x el Threw show ?thesis by (auto simp: Let_def)
      next
        case rem: False
        show ?thesis
        proof (cases "includes_str msg ''timeout'' \<or> includes_str msg ''not found''")
          case False
          with Cons.prems x el Threw rem show ?thesis by (auto simp: Let_def)
        next
          case True
          let ?d' = "min (delay * (3 / 2)) 30000"
          obtain r' t' evs' where rec: "pollAttestation script ?d' (elapsed + d + delay) = (r', t', evs')"
            by (cases "pollAttestation script ?d' (elapsed + d + delay)") blast
          with Cons.prems x el Threw rem True have evs: "evs = Attempt elapsed # Sleep (elapsed + d) delay # evs'"
            by (auto simp: Let_def)
          have d1: "0 < ?d'" using Cons.prems(1) by simp
          have d2: "?d' \<le> 30000" by simp
          show ?thesis
          proof (cases i)
            case 0
            with evs Cons.prems(2) show ?thesis by simp
          next
            case (Suc j)
            with evs Cons.prems have "j < length (sleeps evs')" by simp
            from Cons.IH [OF d1 d2 rec this] have "sleeps evs' ! j = min (?d' * (3 / 2) ^ j) 30000" .
            also have "\<dots> = min (delay * (3 / 2) ^ Suc j) 30000"
              by (rule backoff_step [OF Cons.prems(1)])
            finally show ?thesis using evs Suc by simp
          qed
        qed
      qed
    qed
  qed
qed


lemma poll_attempt_starts:
  "pollAttestation script delay elapsed = (r, t, evs) \<Longrightarrow>
     \<forall>s \<in> set (attemptStarts evs). s < maxTimeout"
proof (induction script arbitrary: delay elapsed r t evs)
  case Nil
  then show ?case by (auto split: if_splits)
next
  case (Cons x script)
  obtain d out where x: "x = (d, out)" by (cases x)
  show ?case
  proof (cases "elapsed < maxTimeout")
    case False
    with Cons.prems x show ?thesis by auto
  next
    case el: True
    show ?thesis
    proof (cases out)
      case (Returned ids)
      show ?thesis
      proof (cases "\<exists>a as. ids = Some (a # as)")
        case True
        with Cons.prems x el Returned show ?thesis by auto
      next
        case False
        then have ids: "ids = None \<or> ids = Some []" by (cases ids; cases "the ids") auto
        obtain r' t' evs' where rec: "pollAttestation script delay (elapsed + d) = (r', t', evs')"
          by (cases "pollAttestation script delay (elapsed + d)") blast
        with Cons.prems x el Returned ids have evs: "evs = Attempt elapsed # evs'"
          by auto
        from Cons.IH [OF rec] evs el show ?thesis by simp
      qed
    next
      case (Threw msg)
      show ?thesis
      proof (cases "maxTimeout - (elapsed + d) \<le> 0")
        case True
        with Cons.prems x el Threw show ?thesis by (auto simp: Let_def)
      next
        case rem: False
        show ?thesis
        proof (cases "includes_str msg ''timeout'' \<or> includes_str msg ''not found''")
          case False
          with Cons.prems x el Threw rem show ?thesis by (auto simp: Let_def)
        next
          case True
          let ?d' = "min (delay * (3 / 2)) 30000"
          obtain r' t' evs' where rec: "pollAttestation script ?d' (elapsed + d + delay) = (r', t', evs')"
            by (cases "pollAttestation script ?d' (elapsed + d + delay)") blast
          with Cons.prems x el Threw rem True have evs: "evs = Attempt elapsed # Sleep (elapsed + d) delay # evs'"
            by (auto simp: Let_def)
          from Cons.IH [OF rec] evs el show ?thesis by simp
        qed
      qed
    qed
  qed
qed

lemma poll_sleep_starts:
  "pollAttestation script delay elapsed = (r, t, evs) \<Longrightarrow>
     \<forall>s \<in> set (sleepStarts evs). s < maxTimeout"
proof (induction script arbitrary: delay elapsed r t evs)
  case Nil
  then show ?case by (auto split: if_splits)
next
  case (Cons x script)
  obtain d out where x: "x = (d, out)" by (cases x)
  show ?case
  proof (cases "elapsed < maxTimeout")
    case False
    with Cons.prems x show ?thesis by auto
  next
    case el: True
    show ?thesis
    proof (cases out)
      case (Returned ids)
      show ?thesis
      proof (cases "\<exists>a as. ids = Some (a # as)")
        case True
        with Cons.prems x el Returned show ?thesis by auto
      next
        case False
        then have ids: "ids = None \<or> ids = Some []" by (cases ids; cases "the ids") auto
        obtain r' t' evs' where rec: "pollAttestation script delay (elapsed + d) = (r', t', evs')"
          by (cases "pollAttestation script delay (elapsed + d)") blast
        with Cons.prems x el Returned ids have evs: "evs = Attempt elapsed # evs'"
          by auto
        from Cons.IH [OF rec] evs show ?thesis by simp
      qed
    next
      case (Threw msg)
      show ?thesis
      proof (cases "maxTimeout - (elapsed + d) \<le> 0")
        case True
        with Cons.prems x el Threw show ?thesis by (auto simp: Let_def)
      next
        case rem: False
        show ?thesis
        proof (cases "includes_str msg ''timeout'' \<or> includes_str msg ''not found''")
          case False
          with Cons.prems x el Threw rem show ?thesis by (auto simp: Let_def)
        next
          case True
          let ?d' = "min (delay * (3 / 2)) 30000"
          obtain r' t' evs' where rec: "pollAttestation script ?d' (elapsed + d + delay) = (r', t', evs')"
            by (cases "pollAttestation script ?d' (elapsed + d + delay)") blast
          with Cons.prems x el Threw rem True have evs: "evs = Attempt elapsed # Sleep (elapsed + d) delay # evs'"
            by (auto simp: Let_def)
          from rem have "elapsed + d < maxTimeout" by simp
          with Cons.IH [OF rec] evs show ?thesis by simp
        qed
      qed
    qed
  qed
qed

lemma poll_end_time:
  "pollAttestation script delay elapsed = (r, t, evs) \<Longrightarrow> \<forall>ids. r \<noteq> Received ids \<Longrightarrow>
     (r = TimeoutInHandler \<or> r = TimeoutAfterLoop) \<longleftrightarrow> maxTimeout \<le> t"
proof (induction script arbitrary: delay elapsed r t evs)
  case Nil
  then show ?case by (auto split: if_splits)
next
  case (Cons x script)
  obtain d out where x: "x = (d, out)" by (cases x)
  show ?case
  proof (cases "elapsed < maxTimeout")
    case False
    with Cons.prems x show ?thesis by auto
  next
    case el: True
    show ?thesis
    proof (cases out)
      case (Returned ids)
      show ?thesis
      proof (cases "\<exists>a as. ids = Some (a # as)")
        case True
        with Cons.prems x el Returned show ?thesis by auto
      next
        case False
        then have ids: "ids = None \<or> ids = Some []" by (cases ids; cases "the ids") auto
        obtain r' t' evs' where rec: "pollAttestation script delay (elapsed + d) = (r', t', evs')"
          by (cases "pollAttestation script delay (elapsed + d)") blast
        with Cons.prems x el Returned ids have "r = r'" "t = t'"
          by auto
        with Cons.IH [OF rec] Cons.prems(2) show ?thesis by simp
      qed
    next
      case (Threw msg)
      show ?thesis
      proof (cases "maxTimeout - (elapsed + d) \<le> 0")
        case True
        with Cons.prems x el Threw have "t = elapsed + d" "r = TimeoutInHandler"
          by (auto simp: Let_def)
        with True show ?thesis by simp
      next
        case rem: False
        show ?thesis
        proof (cases "includes_str msg ''timeout'' \<or> includes_str msg ''not found''")
          case False
          with Cons.prems x el Threw rem have "t = elapsed + d" "r = Rethrown msg"
            by (auto simp: Let_def)
          with rem show ?thesis by simp
        next
          case True
          let ?d' = "min (delay * (3 / 2)) 30000"
          obtain r' t' evs' where rec: "pollAttestation script ?d' (elapsed + d + delay) = (r', t', evs')"
            by (cases "pollAttestation script ?d' (elapsed + d + delay)") blast
          with Cons.prems x el Threw rem True have rt: "r = r'" "t = t'"
            by (auto simp: Let_def)
          with Cons.IH [OF rec] Cons.prems(2) show ?thesis by simp
        qed
      qed
    qed
  qed
qed

lemma poll_end_bound:
  "0 \<le> delay \<Longrightarrow> delay \<le> 30000 \<Longrightarrow> \<forall>(d, out) \<in> set script. 0 \<le> d \<and> d \<le> 10000 \<Longrightarrow>
     elapsed < maxTimeout + 30000 \<Longrightarrow> pollAttestation script delay elapsed = (r, t, evs) \<Longrightarrow>
     t < maxTimeout + 30000"
proof (induction script arbitrary: delay elapsed r t evs)
  case Nil
  then show ?case by (auto split: if_splits)
next
  case (Cons x script)
  obtain d out where x: "x = (d, out)" by (cases x)
  from Cons.prems(3) x have d: "0 \<le> d" "d \<le> 10000"
    and rest: "\<forall>(d, out) \<in> set script. 0 \<le> d \<and> d \<le> 10000"
    by auto
  show ?case
  proof (cases "elapsed < maxTimeout")
    case False
    with Cons.prems x show ?thesis by auto
  next
    case el: True
    then have el': "elapsed + d < maxTimeout + 30000" using d by simp
    show ?thesis
    proof (cases out)
      case (Returned ids)
      show ?thesis
      proof (cases "\<exists>a as. ids = Some (a # as)")
        case True
        with Cons.prems x el Returned have "t = elapsed + d" by auto
        with el' show ?thesis by simp
      next
        case False
        then have ids: "ids = None \<or> ids = Some []" by (cases ids; cases "the ids") auto
        obtain r' t' evs' where rec: "pollAttestation script delay (elapsed + d) = (r', t', evs')"
          by (cases "pollAttestation script delay (elapsed + d)") blast
        with Cons.prems x el Returned ids have "t = t'"
          by auto
        with Cons.IH [OF Cons.prems(1) Cons.prems(2) rest el' rec]
        show ?thesis by simp
      qed
    next
      case (Threw msg)
      show ?thesis
      proof (cases "maxTimeout - (elapsed + d) \<le> 0")
        case True
        with Cons.prems x el Threw have "t = elapsed + d" by (auto simp: Let_def)
        with el' show ?thesis by simp
      next
        case rem: False
        show ?thesis
        proof (cases "includes_str msg ''timeout'' \<or> includes_str msg ''not found''")
          case False
          with Cons.prems x el Threw rem have "t = elapsed + d" by (auto simp: Let_def)
          with el' show ?thesis by simp
        next
          case True
          let ?d' = "min (delay * (3 / 2)) 30000"
          obtain r' t' evs' where rec: "pollAttestation script ?d' (elapsed + d + delay) = (r', t', evs')"
            by (cases "pollAttestation script ?d' (elapsed + d + delay)") blast
          with Cons.prems x el Threw rem True have rt: "t = t'"
            by (auto simp: Let_def)
          have d1: "0 \<le> ?d'" using Cons.prems(1) by simp
          have d2: "?d' \<le> 30000" by simp
          have el'': "elapsed + d + delay < maxTimeout + 30000"
            using rem Cons.prems(2) by simp
          from Cons.IH [OF d1 d2 rest el'' rec] rt show ?thesis by simp
        qed
      qed
    qed
  qed
qed

lemma poll_never_ready:
  "neverReady script \<Longrightarrow> 2000 \<le> delay \<Longrightarrow> pollAttestation script delay elapsed = (r, t, evs) \<Longrightarrow>
     (r = TimeoutInHandler \<or> r = TimeoutAfterLoop) \<or>
     (r = ScriptEnded \<and> elapsed + 2000 * of_nat (length script) \<le> t)"
proof (induction script arbitrary: delay elapsed r t evs)
  case Nil
  then show ?case by (auto split: if_splits)
next
  case (Cons x script)
  obtain d out where x: "x = (d, out)" by (cases x)
  from Cons.prems(1) x obtain msg where d: "0 \<le> d" and out: "out = Threw msg"
    and inc: "includes_str msg ''timeout'' \<or> includes_str msg ''not found''"
    and rest: "neverReady script"
    by (auto simp: neverReady_def)
  show ?case
  proof (cases "elapsed < maxTimeout")
    case False
    with Cons.prems x show ?thesis by auto
  next
    case el: True
    show ?thesis
    proof (cases "maxTimeout - (elapsed + d) \<le> 0")
      case True
      with Cons.prems x el out show ?thesis by (auto simp: Let_def)
    next
      case rem: False
      let ?d' = "min (delay * (3 / 2)) 30000"
      obtain r' t' evs' where rec: "pollAttestation script ?d' (elapsed + d + delay) = (r', t', evs')"
        by (cases "pollAttestation script ?d' (elapsed + d + delay)") blast
      with Cons.prems x el out rem inc have rt: "r = r'" "t = t'"
        by (auto simp: Let_def)
      have d': "2000 \<le> ?d'" using Cons.prems(2) by simp
      from Cons.IH [OF rest d' rec] rt
      have "(r = TimeoutInHandler \<or> r = TimeoutAfterLoop) \<or>
            (r = ScriptEnded \<and> elapsed + d + delay + 2000 * of_nat (length script) \<le> t)"
        by simp
      moreover have "elapsed + 2000 * of_nat (length (x # script)) \<le>
                     elapsed + d + delay + 2000 * of_nat (length script)"
        using d Cons.prems(2) by (simp add: algebra_simps)
      ultimately show ?thesis by auto
    qed
  qed
qed

lemma poll_never_ready_events:
  "neverReady script \<Longrightarrow> pollAttestation script delay elapsed = (r, t, evs) \<Longrightarrow>
     length (attemptStarts evs) = length (sleeps evs) + (if r = TimeoutInHandler then 1 else 0)"
proof (induction script arbitrary: delay elapsed r t evs)
  case Nil
  then show ?case by (auto split: if_splits)
next
  case (Cons x script)
  obtain d out where x: "x = (d, out)" by (cases x)
  from Cons.prems(1) x obtain msg where out: "out = Threw msg"
    and inc: "includes_str msg ''timeout'' \<or> includes_str msg ''not found''"
    and rest: "neverReady script"
    by (auto simp: neverReady_def)
  show ?case
  proof (cases "elapsed < maxTimeout")
    case False
    with Cons.prems x show ?thesis by auto
  next
    case el: True
    show ?thesis
    proof (cases "maxTimeout - (elapsed + d) \<le> 0")
      case True
      with Cons.prems x el out show ?thesis by (auto simp: Let_def)
    next
      case rem: False
      let ?d' = "min (delay * (3 / 2)) 30000"
      obtain r' t' evs' where rec: "pollAttestation script ?d' (elapsed + d + delay) = (r', t', evs')"
        by (cases "pollAttestation script ?d' (elapsed + d + delay)") blast
      with Cons.prems x el out rem inc have rt: "r = r'" "evs = Attempt elapsed # Sleep (elapsed + d) delay # evs'"
        by (auto simp: Let_def)
      from Cons.IH [OF rest rec] rt show ?thesis by simp
    qed
  qed
qed

lemma demo_poll:
  "pollLoop demoScript =
     (TimeoutInHandler, 737375 / 4,
      [Attempt 0, Sleep 10000 2000, Attempt 12000, Sleep 22000 3000, Attempt 25000,
       Sleep 35000 4500, Attempt 39500, Sleep 49500 6750, Attempt 56250, Sleep 66250 10125,
       Attempt 76375, Sleep 86375 (30375 / 2), Attempt (203125 / 2),
       Sleep (223125 / 2) (91125 / 4), Attempt (537375 / 4), Sleep (577375 / 4) 30000,
       Attempt (697375 / 4)])"
  by (simp add: pollLoop_def demoScript_def maxTimeout_def Let_def)

lemma long_poll:
  "pollLoop longScript =
     (TimeoutInHandler, 737375 / 4,
      [Attempt 0, Sleep 10000 2000, Attempt 12000, Sleep 22000 3000, Attempt 25000,
       Sleep 35000 4500, Attempt 39500, Sleep 49500 6750, Attempt 56250, Sleep 66250 10125,
       Attempt 76375, Sleep 86375 (30375 / 2), Attempt (203125 / 2),
       Sleep (223125 / 2) (91125 / 4), Attempt (537375 / 4), Sleep (577375 / 4) 30000,
       Attempt (697375 / 4)])"
  by (simp add: pollLoop_def longScript_def demoScript_def maxTimeout_def Let_def)

lemma long_neverReady: "neverReady longScript"
  by (auto simp: neverReady_def longScript_def demoScript_def)

lemma long_durations: "\<forall>(d, out) \<in> set longScript. 0 \<le> d \<and> d \<le> 10000"
  by (auto simp: longScript_def demoScript_def)

lemma long_length: "90 \<le> length longScript"
  by (simp add: longScript_def demoScript_def)


text \<open>
  Claim C9, as amended. In the polling loop the delays slept are, in order,
  \<open>min (2000 * 1.5 ^ i) 30000\<close> for \<open>i = 0, 1, ...\<close>: they start at 2000 ms, grow by the
  factor 1.5 and never exceed 30000 ms; against a service that is never ready every
  attempt is followed by such a sleep, the attempt after which the timeout is declared
  apart. No attempt and no sleep starts once 180000 ms have elapsed: every test of the
  deadline that the loop passed was made before the deadline. A loop that ends without
  an attestation ends in the timeout exactly when 180000 ms or more have elapsed at its
  end (before that, it ends by rethrowing another error), so that the timeout is declared
  at the first test after the deadline and not before it: the deadline can be exceeded,
  by the attempt or the sleep that was under way when it passed. With a timer that wakes
  exactly after the delay and attempts that take at most 10000 ms each, the loop ends
  less than 210000 ms after it began. Against a service that is never ready and that is
  given ninety attempts, the loop does declare the timeout.
\<close>

theorem poll_backoff_and_deadline:
  "case pollLoop script of (r, t, evs) \<Rightarrow>
     (\<forall>i < length (sleeps evs). sleeps evs ! i = min (2000 * (3 / 2) ^ i) 30000) \<and>
     (neverReady script \<longrightarrow>
        length (attemptStarts evs) = length (sleeps evs) + (if r = TimeoutInHandler then 1 else 0)) \<and>
     (\<forall>s \<in> set (attemptStarts evs). s < 180000) \<and>
     (\<forall>s \<in> set (sleepStarts evs). s < 180000) \<and>
     ((\<forall>ids. r \<noteq> Received ids) \<longrightarrow>
        ((r = TimeoutInHandler \<or> r = TimeoutAfterLoop) \<longleftrightarrow> 180000 \<le> t)) \<and>
     ((\<forall>(d, out) \<in> set script. 0 \<le> d \<and> d \<le> 10000) \<longrightarrow> t < 210000) \<and>
     (neverReady script \<and> 90 \<le> length script \<longrightarrow> r = TimeoutInHandler \<or> r = TimeoutAfterLoop)"
proof -
  obtain r t evs where p: "pollAttestation script 2000 0 = (r, t, evs)"
    by (cases "pollAttestation script 2000 0") blast
  have 1: "\<forall>i < length (sleeps evs). sleeps evs ! i = min (2000 * (3 / 2) ^ i) 30000"
    using poll_sleeps [OF _ _ p] by simp
  have 2: "length (attemptStarts evs) = length (sleeps evs) + (if r = TimeoutInHandler then 1 else 0)"
    if "neverReady script"
    using poll_never_ready_events [OF that p] .
  have 3: "\<forall>s \<in> set (attemptStarts evs). s < 180000"
    using poll_attempt_starts [OF p] by (simp add: maxTimeout_def)
  have 4: "\<forall>s \<in> set (sleepStarts evs). s < 180000"
    using poll_sleep_starts [OF p] by (simp add: maxTimeout_def)
  have 5: "(r = TimeoutInHandler \<or> r = TimeoutAfterLoop) \<longleftrightarrow> 180000 \<le> t"
    if "\<forall>ids. r \<noteq> Received ids"
    using poll_end_time [OF p that] by (simp add: maxTimeout_def)
  have 6: "t < 210000" if "\<forall>(d, out) \<in> set script. 0 \<le> d \<and> d \<le> 10000"
    using poll_end_bound [OF _ _ that _ p] by (simp add: maxTimeout_def)
  have 7: "r = TimeoutInHandler \<or> r = TimeoutAfterLoop"
    if n: "neverReady script" and l: "90 \<le> length script"
  proof (rule ccontr)
    assume c: "\<not> (r = TimeoutInHandler \<or> r = TimeoutAfterLoop)"
    with poll_never_ready [OF n _ p] have e: "r = ScriptEnded"
      and le: "0 + 2000 * of_nat (length script) \<le> t"
      by auto
    from l have "(90::rat) \<le> of_nat (length script)"
      by (metis of_nat_le_iff of_nat_numeral)
    with le have "180000 \<le> t" by simp
    moreover from e have "\<forall>ids. r \<noteq> Received ids" by simp
    ultimately show False using 5 c by blast
  qed
  from 1 2 3 4 5 6 7 show ?thesis by (simp add: pollLoop_def p)
qed

theorem poll_backoff_and_deadline_witness:
  "fst (pollLoop longScript) = TimeoutInHandler \<and>
   180000 \<le> fst (snd (pollLoop longScript)) \<and> fst (snd (pollLoop longScript)) < 210000 \<and>
   filter (\<lambda>s. \<not> s < 180000) (attemptStarts (snd (snd (pollLoop longScript)))) = [] \<and>
   filter (\<lambda>s. \<not> s < 180000) (sleepStarts (snd (snd (pollLoop longScript)))) = [] \<and>
   sleeps (snd (snd (pollLoop longScript))) ! 7 = min (2000 * (3 / 2) ^ 7) 30000 \<and>
   length (attemptStarts (snd (snd (pollLoop longScript)))) =
     length (sleeps (snd (snd (pollLoop longScript)))) + 1"
proof -
  have r: "fst (pollLoop longScript) = TimeoutInHandler"
    by (simp add: long_poll)
  then have nr: "\<forall>ids. fst (pollLoop longScript) \<noteq> Received ids"
    by simp
  have l: "7 < length (sleeps (snd (snd (pollLoop longScript))))"
    by (simp add: long_poll)
  from poll_backoff_and_deadline [of longScript] long_neverReady long_durations long_length r nr l
  show ?thesis
    by (cases "pollLoop longScript") (auto simp: filter_empty_conv)
qed

text \<open>
  Claim C9 as stated fails in its last part: against a service that times out after
  10 seconds at every attempt, the loop declares the timeout 184343.75 ms after it
  started.
\<close>

theorem poll_overshoots_deadline_counterexample:
  "fst (pollLoop demoScript) = TimeoutInHandler \<and> fst (snd (pollLoop demoScript)) = 737375 / 4 \<and>
   (737375 / 4 :: rat) > maxTimeout"
  by (simp add: demo_poll maxTimeout_def)


end
